theory Spec2Isabelle
  imports Complex_Main "HOL-Library.Word"
begin

unbundle bit_operations_syntax

section \<open>FacePass: the matching and liveness engine\<close>

text \<open>
  A shallow embedding of \<^verbatim>\<open>face_processor.py\<close> (the embedding strategy, built on
  face_recognition/dlib), \<^verbatim>\<open>face_processor_cv.py\<close> (the handcrafted strategy, built on
  OpenCV only) and the enrollment path of \<^verbatim>\<open>main.py\<close>.

  Conventions of the embedding:
  \<^item> Python and NumPy floating-point numbers are modelled as exact reals; rounding is not
    modelled. Every constant is the decimal the source writes (\<open>1e-7\<close> is \<open>1 / 10 ^ 7\<close>).
  \<^item> An 8-bit pixel or byte is an \<open>8 word\<close>; \<open>unat\<close> reads it.
  \<^item> A raised exception is the \<open>Inl\<close> branch of a sum.
  \<^item> Functions of OpenCV, NumPy's buffer decoding and face_recognition that the source
    calls but does not define are parameters of the model.
\<close>

subsection \<open>config.py\<close>

definition FACE_RECOGNITION_TOLERANCE :: real where
  "FACE_RECOGNITION_TOLERANCE = 5 / 10"

definition BLINK_THRESHOLD :: real where
  "BLINK_THRESHOLD = 25 / 100"

definition LBP_THRESHOLD :: real where
  "LBP_THRESHOLD = 4 / 10"

definition ENABLE_HISTOGRAM_EQUALIZATION :: bool where
  "ENABLE_HISTOGRAM_EQUALIZATION = True"

definition ENABLE_CLAHE :: bool where
  "ENABLE_CLAHE = True"

text \<open>The guard constant that every normalisation of the source adds to a divisor.\<close>

definition eps :: real where
  "eps = 1 / 10 ^ 7"

subsection \<open>Exceptions\<close>

datatype error =
    IndexError
  | KeyError
  | ValueError
  | CvError

subsection \<open>Blink detection (face_processor.py, SpoofDetector)\<close>

text \<open>The fields that \<^verbatim>\<open>SpoofDetector.__init__\<close> sets.\<close>

record spoof_detector =
  blink_counter :: nat
  blink_threshold :: real
  eye_ar_consecutive_frames :: nat
  frame_counter :: nat
  previous_ear :: "real option"

definition SpoofDetector_init :: spoof_detector where
  "SpoofDetector_init =
     \<lparr>blink_counter = 0, blink_threshold = BLINK_THRESHOLD,
      eye_ar_consecutive_frames = 3, frame_counter = 0, previous_ear = None\<rparr>"

type_synonym point = "real \<times> real"

text \<open>The landmark dictionary of a face: named groups of points, in the order given.\<close>

type_synonym landmarks = "(string \<times> point list) list"

text \<open>\<^verbatim>\<open>scipy.spatial.distance.euclidean\<close> on two points of the plane.\<close>

definition euclidean :: "point \<Rightarrow> point \<Rightarrow> real" where
  "euclidean p q = sqrt ((fst p - fst q)\<^sup>2 + (snd p - snd q)\<^sup>2)"

text \<open>
  \<^verbatim>\<open>calculate_eye_aspect_ratio\<close>. The source indexes the landmark array at 0..5; a shorter
  array raises IndexError.
\<close>

definition calculate_eye_aspect_ratio :: "point list \<Rightarrow> error + real" where
  "calculate_eye_aspect_ratio eye_landmarks =
     (if length eye_landmarks < 6 then Inl IndexError
      else
        let A = euclidean (eye_landmarks ! 1) (eye_landmarks ! 5);
            B = euclidean (eye_landmarks ! 2) (eye_landmarks ! 4);
            C = euclidean (eye_landmarks ! 0) (eye_landmarks ! 3)
        in Inr (if C > 0 then (A + B) / (2 * C) else 0))"

text \<open>
  Lines 116 to 127 of \<^verbatim>\<open>detect_blink\<close>: the update of the detector once the averaged
  ratio \<open>ear\<close> of the frame is known.
\<close>

definition blink_update :: "real \<Rightarrow> spoof_detector \<Rightarrow> (bool \<times> real) \<times> spoof_detector" where
  "blink_update ear s =
     (if ear < blink_threshold s then
        ((False, ear), s\<lparr>frame_counter := frame_counter s + 1, previous_ear := Some ear\<rparr>)
      else if frame_counter s \<ge> eye_ar_consecutive_frames s then
        ((True, ear), s\<lparr>blink_counter := blink_counter s + 1, frame_counter := 0,
                         previous_ear := Some ear\<rparr>)
      else
        ((False, ear), s\<lparr>frame_counter := 0, previous_ear := Some ear\<rparr>))"

text \<open>
  \<^verbatim>\<open>detect_blink\<close>. Without both eyes it returns \<open>(False, 0.0)\<close> and leaves the detector
  untouched; an exception of the ratio computation leaves it untouched too, since it is
  raised before any field is written.
\<close>

definition detect_blink ::
  "landmarks \<Rightarrow> spoof_detector \<Rightarrow> error + ((bool \<times> real) \<times> spoof_detector)" where
  "detect_blink face_landmarks s =
     (case (map_of face_landmarks ''left_eye'', map_of face_landmarks ''right_eye'') of
        (Some left_eye, Some right_eye) \<Rightarrow>
          (case calculate_eye_aspect_ratio left_eye of
             Inl e \<Rightarrow> Inl e
           | Inr left_ear \<Rightarrow>
               (case calculate_eye_aspect_ratio right_eye of
                  Inl e \<Rightarrow> Inl e
                | Inr right_ear \<Rightarrow> Inr (blink_update ((left_ear + right_ear) / 2) s)))
      | _ \<Rightarrow> Inr ((False, 0), s))"

text \<open>
  Feeding a session of frames to one detector, as the repeated calls of a caller do:
  the flags returned frame by frame, and the detector afterwards.
\<close>

fun detect_blinks :: "landmarks list \<Rightarrow> spoof_detector \<Rightarrow> error + (bool list \<times> spoof_detector)" where
  "detect_blinks [] s = Inr ([], s)"
| "detect_blinks (f # fs) s =
     (case detect_blink f s of
        Inl e \<Rightarrow> Inl e
      | Inr ((b, ear), s') \<Rightarrow>
          (case detect_blinks fs s' of
             Inl e \<Rightarrow> Inl e
           | Inr (bs, s'') \<Rightarrow> Inr (b # bs, s'')))"

text \<open>
  A frame whose two eyes both have the aspect ratio \<open>e\<close>: corners one unit apart, both
  lid pairs \<open>e\<close> apart.
\<close>

definition eye_of_ratio :: "real \<Rightarrow> point list" where
  "eye_of_ratio e = [(0, 0), (0, e), (1, e), (1, 0), (1, 0), (0, 0)]"

definition frame_of_ratio :: "real \<Rightarrow> landmarks" where
  "frame_of_ratio e = [(''left_eye'', eye_of_ratio e), (''right_eye'', eye_of_ratio e)]"

subsection \<open>Images and the OpenCV functions the source calls\<close>

type_synonym pixel = "8 word"

type_synonym gray_image = "pixel list list"

type_synonym color_image = "(pixel \<times> pixel \<times> pixel) list list"

text \<open>
  A NumPy image is a list of rows: two-dimensional (one channel) or three-dimensional
  (three channels, in OpenCV's B, G, R order unless converted).
\<close>

datatype image = Gray gray_image | Color color_image

text \<open>\<^verbatim>\<open>image.shape[0]\<close>, \<^verbatim>\<open>image.shape[1]\<close> and \<^verbatim>\<open>image.size\<close>.\<close>

definition rows :: "'a list list \<Rightarrow> nat" where
  "rows m = length m"

definition cols :: "'a list list \<Rightarrow> nat" where
  "cols m = (case m of [] \<Rightarrow> 0 | r # _ \<Rightarrow> length r)"

fun shape0 :: "image \<Rightarrow> nat" where
  "shape0 (Gray g) = rows g"
| "shape0 (Color c) = rows c"

fun shape1 :: "image \<Rightarrow> nat" where
  "shape1 (Gray g) = cols g"
| "shape1 (Color c) = cols c"

fun size_of :: "image \<Rightarrow> nat" where
  "size_of (Gray g) = rows g * cols g"
| "size_of (Color c) = rows c * cols c * 3"

text \<open>Every row of the matrix has the given width.\<close>

definition has_shape :: "nat \<Rightarrow> nat \<Rightarrow> 'a list list \<Rightarrow> bool" where
  "has_shape h w m \<longleftrightarrow> length m = h \<and> list_all (\<lambda>r. length r = w) m"

text \<open>
  The functions of OpenCV that the source calls and that are not modelled here: each may
  raise. \<open>resize\<close> takes the target size as OpenCV does, \<open>(width, height)\<close>;
  \<open>threshold_binary\<close> is \<^verbatim>\<open>cv2.threshold(_, t, maxval, cv2.THRESH_BINARY)[1]\<close>;
  \<open>Laplacian\<close> is \<^verbatim>\<open>cv2.Laplacian(_, cv2.CV_64F)\<close>.
\<close>

record cv2 =
  resize_gray :: "gray_image \<Rightarrow> nat \<times> nat \<Rightarrow> error + gray_image"
  resize_color :: "color_image \<Rightarrow> nat \<times> nat \<Rightarrow> error + color_image"
  cvtColor_BGR2GRAY :: "image \<Rightarrow> error + gray_image"
  cvtColor_BGR2HSV :: "image \<Rightarrow> error + color_image"
  cvtColor_BGR2LAB :: "image \<Rightarrow> error + color_image"
  cvtColor_LAB2BGR :: "color_image \<Rightarrow> error + color_image"
  clahe_apply :: "gray_image \<Rightarrow> error + gray_image"
  equalizeHist :: "gray_image \<Rightarrow> error + gray_image"
  threshold_binary :: "gray_image \<Rightarrow> nat \<Rightarrow> nat \<Rightarrow> error + gray_image"
  Laplacian :: "gray_image \<Rightarrow> error + real list list"

text \<open>Sequencing of calls that may raise: the first exception ends the computation.\<close>

definition bind :: "error + 'a \<Rightarrow> ('a \<Rightarrow> error + 'b) \<Rightarrow> error + 'b" where
  "bind m f = (case m of Inl e \<Rightarrow> Inl e | Inr x \<Rightarrow> f x)"

text \<open>\<^verbatim>\<open>cv2.resize\<close> keeps the number of channels.\<close>

fun resize :: "cv2 \<Rightarrow> image \<Rightarrow> nat \<times> nat \<Rightarrow> error + image" where
  "resize cv (Gray g) dsize = bind (resize_gray cv g dsize) (\<lambda>r. Inr (Gray r))"
| "resize cv (Color c) dsize = bind (resize_color cv c dsize) (\<lambda>r. Inr (Color r))"

text \<open>
  \<^verbatim>\<open>cv2.split\<close> of a three-channel image and \<^verbatim>\<open>cv2.merge\<close> of three planes; OpenCV
  refuses to merge planes of different sizes.
\<close>

definition split :: "color_image \<Rightarrow> gray_image \<times> gray_image \<times> gray_image" where
  "split c = (map (map fst) c, map (map (fst \<circ> snd)) c, map (map (snd \<circ> snd)) c)"

definition merge :: "gray_image \<Rightarrow> gray_image \<Rightarrow> gray_image \<Rightarrow> error + color_image" where
  "merge l a b =
     (if map length l = map length a \<and> map length a = map length b
      then Inr (map (\<lambda>(lr, ar, br). zip lr (zip ar br)) (zip l (zip a b)))
      else Inl CvError)"

subsection \<open>LightingNormalizer\<close>

text \<open>
  \<^verbatim>\<open>LightingNormalizer.normalize\<close> (the same in both files): adaptive equalisation has
  priority over plain equalisation; a colour image is equalised on its luminance plane
  only.
\<close>

definition equalize :: "cv2 \<Rightarrow> gray_image \<Rightarrow> error + gray_image" where
  "equalize cv l =
     (if ENABLE_CLAHE then clahe_apply cv l
      else if ENABLE_HISTOGRAM_EQUALIZATION then equalizeHist cv l
      else Inr l)"

fun normalize :: "cv2 \<Rightarrow> image \<Rightarrow> error + image" where
  "normalize cv (Gray g) = bind (equalize cv g) (\<lambda>r. Inr (Gray r))"
| "normalize cv (Color c) =
     bind (cvtColor_BGR2LAB cv (Color c)) (\<lambda>lab.
       case split lab of (l, a, b) \<Rightarrow>
         bind (equalize cv l) (\<lambda>l'.
         bind (merge l' a b) (\<lambda>lab'.
         bind (cvtColor_LAB2BGR cv lab') (\<lambda>normalized.
         Inr (Color normalized)))))"

subsection \<open>NumPy helpers\<close>

text \<open>
  \<^verbatim>\<open>np.histogram(a, bins=n, range=(lo, hi), weights=w)[0]\<close>: \<open>n\<close> bins of equal width over
  \<open>[lo, hi]\<close>; a sample outside the range is dropped, and the last bin is closed on the
  right, so a sample equal to \<open>hi\<close> falls into it.
\<close>

definition bin_index :: "nat \<Rightarrow> real \<times> real \<Rightarrow> real \<Rightarrow> nat option" where
  "bin_index bins rng x =
     (case rng of (lo, hi) \<Rightarrow>
        if x < lo \<or> hi < x then None
        else if x = hi then Some (bins - 1)
        else Some (nat \<lfloor>(x - lo) * real bins / (hi - lo)\<rfloor>))"

definition np_histogram_weighted ::
  "real list \<Rightarrow> nat \<Rightarrow> real \<times> real \<Rightarrow> real list \<Rightarrow> real list" where
  "np_histogram_weighted a bins rng weights =
     map (\<lambda>b. sum_list (map snd (filter (\<lambda>xw. bin_index bins rng (fst xw) = Some b)
                                     (zip a weights))))
         [0..<bins]"

text \<open>Without weights the histogram counts samples.\<close>

definition np_histogram :: "real list \<Rightarrow> nat \<Rightarrow> real \<times> real \<Rightarrow> nat list" where
  "np_histogram a bins rng =
     map (\<lambda>b. length (filter (\<lambda>x. bin_index bins rng x = Some b) a)) [0..<bins]"

text \<open>\<^verbatim>\<open>ravel\<close> of a matrix, and of an 8-bit matrix read as numbers.\<close>

definition ravel :: "'a list list \<Rightarrow> 'a list" where
  "ravel m = concat m"

definition ravel_u8 :: "gray_image \<Rightarrow> real list" where
  "ravel_u8 m = map (\<lambda>p. real (unat p)) (ravel m)"

text \<open>
  \<^verbatim>\<open>np.arctan2(y, x)\<close>: the angle of the point \<open>(x, y)\<close>, in \<open>(-pi, pi]\<close>, and \<open>0\<close> at the
  origin.
\<close>

definition arctan2 :: "real \<Rightarrow> real \<Rightarrow> real" where
  "arctan2 y x =
     (if 0 < x then arctan (y / x)
      else if x < 0 then (if 0 \<le> y then arctan (y / x) + pi else arctan (y / x) - pi)
      else if 0 < y then pi / 2
      else if y < 0 then - (pi / 2)
      else 0)"

subsection \<open>Handcrafted features (face_processor_cv.py, FaceProcessorCV)\<close>

type_synonym location = "int \<times> int \<times> int \<times> int"

type_synonym feature_vector = "real list"

text \<open>
  \<^verbatim>\<open>FaceProcessorCV._calculate_lbp\<close>: the eight neighbours of an interior pixel, clockwise
  from the upper left, set bits 7 down to 0 of the code; border pixels keep the \<open>0\<close> of
  \<^verbatim>\<open>np.zeros_like\<close>. The code is below 256, so storing it in the 8-bit array loses nothing.
\<close>

definition lbp_bit :: "gray_image \<Rightarrow> nat \<Rightarrow> nat \<Rightarrow> pixel \<Rightarrow> nat \<Rightarrow> nat" where
  "lbp_bit img i j center k = push_bit k (of_bool (img ! i ! j \<ge> center))"

definition lbp_code :: "gray_image \<Rightarrow> nat \<Rightarrow> nat \<Rightarrow> nat" where
  "lbp_code img i j =
     (let center = img ! i ! j in
        lbp_bit img (i - 1) (j - 1) center 7 OR
        lbp_bit img (i - 1) j center 6 OR
        lbp_bit img (i - 1) (j + 1) center 5 OR
        lbp_bit img i (j + 1) center 4 OR
        lbp_bit img (i + 1) (j + 1) center 3 OR
        lbp_bit img (i + 1) j center 2 OR
        lbp_bit img (i + 1) (j - 1) center 1 OR
        lbp_bit img i (j - 1) center 0)"

definition calculate_lbp :: "gray_image \<Rightarrow> gray_image" where
  "calculate_lbp img =
     map (\<lambda>i. map (\<lambda>j. if 1 \<le> i \<and> i + 1 < rows img \<and> 1 \<le> j \<and> j + 1 < cols img
                        then of_nat (lbp_code img i j) else 0)
                   [0..<cols img])
         [0..<rows img]"

text \<open>
  \<^verbatim>\<open>cv2.Sobel(gray, cv2.CV_32F, dx, dy, ksize=3)\<close>: the 3x3 Sobel kernels, with OpenCV's
  default border, which mirrors the image about its edge pixel (BORDER_REFLECT_101). On
  8-bit input every value is an integer of magnitude at most 1020, exact in a float.
\<close>

definition reflect_101 :: "nat \<Rightarrow> int \<Rightarrow> nat" where
  "reflect_101 n p =
     nat (if p < 0 then - p else if int n \<le> p then 2 * int n - 2 - p else p)"

definition px :: "gray_image \<Rightarrow> int \<Rightarrow> int \<Rightarrow> int" where
  "px g i j = int (unat (g ! reflect_101 (rows g) i ! reflect_101 (cols g) j))"

definition Sobel_x :: "gray_image \<Rightarrow> int list list" where
  "Sobel_x g =
     map (\<lambda>i. map (\<lambda>j.
            (px g (i - 1) (j + 1) + 2 * px g i (j + 1) + px g (i + 1) (j + 1)) -
            (px g (i - 1) (j - 1) + 2 * px g i (j - 1) + px g (i + 1) (j - 1)))
          (map int [0..<cols g]))
         (map int [0..<rows g])"

definition Sobel_y :: "gray_image \<Rightarrow> int list list" where
  "Sobel_y g =
     map (\<lambda>i. map (\<lambda>j.
            (px g (i + 1) (j - 1) + 2 * px g (i + 1) j + px g (i + 1) (j + 1)) -
            (px g (i - 1) (j - 1) + 2 * px g (i - 1) j + px g (i - 1) (j + 1)))
          (map int [0..<cols g]))
         (map int [0..<rows g])"

text \<open>
  Lines 323 to 327 of \<^verbatim>\<open>extract_face_features\<close>: magnitude and orientation of the
  gradient at every pixel, the orientation in degrees with negative angles moved up by 180.
\<close>

definition magnitude :: "int \<times> int \<Rightarrow> real" where
  "magnitude g = (case g of (gx, gy) \<Rightarrow> sqrt ((real_of_int gx)\<^sup>2 + (real_of_int gy)\<^sup>2))"

definition angle :: "int \<times> int \<Rightarrow> real" where
  "angle g =
     (case g of (gx, gy) \<Rightarrow>
        let a = arctan2 (real_of_int gy) (real_of_int gx) * 180 / pi
        in if a < 0 then a + 180 else a)"

definition gradients :: "gray_image \<Rightarrow> (int \<times> int) list" where
  "gradients gray = zip (ravel (Sobel_x gray)) (ravel (Sobel_y gray))"

text \<open>
  The four histograms of \<^verbatim>\<open>extract_face_features\<close> (lines 309 to 341), each divided by
  its sum plus \<open>1e-7\<close>.
\<close>

definition lbp_hist :: "gray_image \<Rightarrow> real list" where
  "lbp_hist gray =
     (let h = map real (np_histogram (ravel_u8 (calculate_lbp gray)) 64 (0, 256))
      in map (\<lambda>x. x / (sum_list h + eps)) h)"

definition gray_hist :: "gray_image \<Rightarrow> real list" where
  "gray_hist gray =
     (let h = map real (np_histogram (ravel_u8 gray) 32 (0, 256))
      in map (\<lambda>x. x / (sum_list h + eps)) h)"

definition hog_hist :: "gray_image \<Rightarrow> real list" where
  "hog_hist gray =
     (let h = np_histogram_weighted (map angle (gradients gray)) 18 (0, 180)
                (map magnitude (gradients gray))
      in map (\<lambda>x. x / (sum_list h + eps)) h)"

definition color_hist :: "color_image \<Rightarrow> real list" where
  "color_hist hsv =
     (let h_channel = map (map fst) hsv;
          h = map real (np_histogram (ravel_u8 h_channel) 18 (0, 180))
      in map (\<lambda>x. x / (sum_list h + eps)) h)"

text \<open>
  Lines 280 to 295: the rectangle clamped to the image, and the crop, which is refused
  when it is empty or smaller than 10 pixels in either direction.
\<close>

definition clamp_location :: "image \<Rightarrow> location \<Rightarrow> location" where
  "clamp_location img face_location =
     (case face_location of (top', right, bottom, left) \<Rightarrow>
        let h = int (shape0 img); w = int (shape1 img)
        in (max 0 (min top' (h - 1)), max 0 (min right w),
            max 0 (min bottom h), max 0 (min left (w - 1))))"

definition slice2 :: "'a list list \<Rightarrow> int \<Rightarrow> int \<Rightarrow> int \<Rightarrow> int \<Rightarrow> 'a list list" where
  "slice2 m top' bottom left right =
     map (\<lambda>r. take (nat (right - left)) (drop (nat left) r))
         (take (nat (bottom - top')) (drop (nat top') m))"

fun crop :: "image \<Rightarrow> int \<Rightarrow> int \<Rightarrow> int \<Rightarrow> int \<Rightarrow> image" where
  "crop (Gray g) top' bottom left right = Gray (slice2 g top' bottom left right)"
| "crop (Color c) top' bottom left right = Color (slice2 c top' bottom left right)"

definition face_region :: "image \<Rightarrow> location \<Rightarrow> image option" where
  "face_region img face_location =
     (case clamp_location img face_location of (top', right, bottom, left) \<Rightarrow>
        if bottom \<le> top' \<or> right \<le> left then None
        else
          let region = crop img top' bottom left right
          in if size_of region = 0 \<or> shape0 region < 10 \<or> shape1 region < 10 then None
             else Some region)"

text \<open>
  Lines 297 to 305: the crop resized to 100 by 100 and normalised, then its grey and its
  hue-saturation-value versions.
\<close>

definition face_planes :: "cv2 \<Rightarrow> image \<Rightarrow> error + (gray_image \<times> color_image)" where
  "face_planes cv region =
     bind (resize cv region (100, 100)) (\<lambda>face_resized.
     bind (normalize cv face_resized) (\<lambda>face_normalized.
     bind (cvtColor_BGR2GRAY cv face_normalized) (\<lambda>gray.
     bind (cvtColor_BGR2HSV cv face_normalized) (\<lambda>hsv.
     Inr (gray, hsv)))))"

text \<open>Lines 307 to 343: the descriptor, the four histograms in this order.\<close>

definition descriptor :: "gray_image \<Rightarrow> color_image \<Rightarrow> feature_vector" where
  "descriptor gray hsv = lbp_hist gray @ gray_hist gray @ hog_hist gray @ color_hist hsv"

text \<open>\<^verbatim>\<open>extract_face_features\<close>: \<open>None\<close> is the source's \<^verbatim>\<open>None\<close>.\<close>

definition extract_face_features ::
  "cv2 \<Rightarrow> image \<Rightarrow> location \<Rightarrow> error + feature_vector option" where
  "extract_face_features cv img face_location =
     (case face_region img face_location of
        None \<Rightarrow> Inr None
      | Some region \<Rightarrow>
          bind (face_planes cv region) (\<lambda>(gray, hsv). Inr (Some (descriptor gray hsv))))"

subsection \<open>The gallery of the handcrafted strategy (face_processor_cv.py)\<close>

type_synonym byte = "8 word"

text \<open>A row handed to \<^verbatim>\<open>load_known_faces\<close>: the keys \<^verbatim>\<open>'id'\<close> and \<^verbatim>\<open>'face_encoding'\<close>.\<close>

record user_entry =
  id' :: int
  face_encoding :: "byte list option"

text \<open>
  \<^verbatim>\<open>np.frombuffer(buf, dtype)\<close>: one number per \<open>itemsize\<close> bytes, decoded by \<open>decode\<close>
  (the IEEE decoding, a parameter); a buffer whose size is no multiple of the item size
  raises ValueError.
\<close>

definition frombuffer :: "nat \<Rightarrow> (byte list \<Rightarrow> real) \<Rightarrow> byte list \<Rightarrow> error + real list" where
  "frombuffer itemsize decode buf =
     (if length buf mod itemsize \<noteq> 0 then Inl ValueError
      else Inr (map (\<lambda>i. decode (take itemsize (drop (i * itemsize) buf)))
                    [0..<length buf div itemsize]))"

record face_processor_cv =
  known_face_features :: "feature_vector list"
  known_face_ids :: "int list"


text \<open>
  The loop of \<^verbatim>\<open>FaceProcessorCV.load_known_faces\<close>. An absent or empty encoding is falsy and
  skipped; an exception of the decoding is caught, printed and skipped; a vector of another
  length than 132 is printed and skipped.
\<close>

fun load_loop_cv ::
  "(byte list \<Rightarrow> real) \<Rightarrow> user_entry list \<Rightarrow> face_processor_cv \<Rightarrow> face_processor_cv" where
  "load_loop_cv float32 [] s = s"
| "load_loop_cv float32 (user # users) s =
     (case face_encoding user of
        None \<Rightarrow> load_loop_cv float32 users s
      | Some buf \<Rightarrow>
          if buf = [] then load_loop_cv float32 users s
          else
            (case frombuffer 4 float32 buf of
               Inl e \<Rightarrow> load_loop_cv float32 users s
             | Inr features \<Rightarrow>
                 if length features = 132 then
                   load_loop_cv float32 users
                     (s\<lparr>known_face_features := known_face_features s @ [features],
                        face_processor_cv.known_face_ids := face_processor_cv.known_face_ids s @ [id' user]\<rparr>)
                 else load_loop_cv float32 users s))"

definition load_known_faces_cv ::
  "(byte list \<Rightarrow> real) \<Rightarrow> user_entry list \<Rightarrow> face_processor_cv \<Rightarrow> face_processor_cv" where
  "load_known_faces_cv float32 users s =
     load_loop_cv float32 users (s\<lparr>known_face_features := [], face_processor_cv.known_face_ids := []\<rparr>)"

text \<open>
  \<^verbatim>\<open>np.minimum\<close> on two vectors: elementwise, a vector of length one is broadcast, and
  any other pair of different lengths raises ValueError.
\<close>

definition np_minimum :: "real list \<Rightarrow> real list \<Rightarrow> error + real list" where
  "np_minimum a b =
     (if length a = length b then Inr (map (\<lambda>(x, y). min x y) (zip a b))
      else if length a = 1 then Inr (map (\<lambda>y. min (hd a) y) b)
      else if length b = 1 then Inr (map (\<lambda>x. min x (hd b)) a)
      else Inl ValueError)"

text \<open>
  \<^verbatim>\<open>FaceProcessorCV.compare_faces\<close>: the histogram intersection, divided by the mass of
  the known vector plus \<open>1e-7\<close>. Where that divisor is zero NumPy yields an infinity and
  the model \<open>0\<close>; in that case the known mass is \<open>-1e-7\<close>, the intersection is no larger,
  so NumPy's value is minus infinity, and like \<open>0\<close> it is below the tolerance and never
  above a running best score.
\<close>

definition compare_faces_cv ::
  "feature_vector option \<Rightarrow> feature_vector option \<Rightarrow> error + (bool \<times> real)" where
  "compare_faces_cv known_features face_features =
     (case (known_features, face_features) of
        (Some known, Some face) \<Rightarrow>
          bind (np_minimum known face) (\<lambda>m.
          bind (np_minimum known known) (\<lambda>mm.
            let intersection = sum_list m;
                max_intersection = sum_list mm;
                similarity = intersection / (max_intersection + eps)
            in Inr (similarity \<ge> FACE_RECOGNITION_TOLERANCE, similarity)))
      | _ \<Rightarrow> Inr (False, 0))"

text \<open>What \<^verbatim>\<open>identify_face\<close> returns when it finds somebody.\<close>

record match =
  user_id :: int
  confidence :: real
  distance :: real

text \<open>
  The scan of \<^verbatim>\<open>FaceProcessorCV.identify_face\<close> (lines 416 to 423): \<open>i\<close> is the index of
  \<^verbatim>\<open>enumerate\<close>, and the pair is \<^verbatim>\<open>(best_match_index, best_similarity)\<close>.
\<close>

fun scan_cv ::
  "feature_vector list \<Rightarrow> feature_vector \<Rightarrow> nat \<Rightarrow> int \<times> real \<Rightarrow> error + (int \<times> real)" where
  "scan_cv [] face_features i best = Inr best"
| "scan_cv (known_features # rest) face_features i best =
     bind (compare_faces_cv (Some known_features) (Some face_features)) (\<lambda>(_, similarity).
       if similarity > snd best
       then scan_cv rest face_features (i + 1) (int i, similarity)
       else scan_cv rest face_features (i + 1) best)"

text \<open>
  \<^verbatim>\<open>FaceProcessorCV.identify_face\<close>, in the three parts it is made of. \<open>detect_faces\<close> is
  the face detector (Haar cascade or DNN, a parameter); \<open>Inr None\<close> is the source's
  \<^verbatim>\<open>None\<close>.

  Lines 405 to 413: the location, detected when none is given, and the features of the
  face there.
\<close>

definition probe_features ::
  "cv2 \<Rightarrow> (image \<Rightarrow> error + location list) \<Rightarrow> image \<Rightarrow> location option \<Rightarrow>
     error + feature_vector option" where
  "probe_features cv detect_faces img face_location =
     bind (case face_location of
             Some l \<Rightarrow> Inr (Some l)
           | None \<Rightarrow> bind (detect_faces img) (\<lambda>face_locations.
                       case face_locations of [] \<Rightarrow> Inr None | l # _ \<Rightarrow> Inr (Some l)))
       (\<lambda>found.
     case found of
       None \<Rightarrow> Inr None
     | Some l \<Rightarrow> extract_face_features cv img l)"

text \<open>
  Lines 415 to 432: the scan and the decision. Reading the identity at the best index
  raises IndexError when the identity list is too short.
\<close>

definition match_features :: "face_processor_cv \<Rightarrow> feature_vector \<Rightarrow> error + match option" where
  "match_features s face_features =
     bind (scan_cv (known_face_features s) face_features 0 (- 1, 0))
       (\<lambda>(best_match_index, best_similarity).
     if best_match_index \<ge> 0 \<and> best_similarity \<ge> FACE_RECOGNITION_TOLERANCE
     then
       if nat best_match_index < length (face_processor_cv.known_face_ids s)
       then Inr (Some \<lparr>user_id = face_processor_cv.known_face_ids s ! nat best_match_index,
                        confidence = best_similarity,
                        distance = 1 - best_similarity\<rparr>)
       else Inl IndexError
     else Inr None)"

definition identify_face_cv ::
  "cv2 \<Rightarrow> (image \<Rightarrow> error + location list) \<Rightarrow> face_processor_cv \<Rightarrow> image \<Rightarrow>
     location option \<Rightarrow> error + match option" where
  "identify_face_cv cv detect_faces s img face_location =
     (if known_face_features s = [] then Inr None
      else
        bind (probe_features cv detect_faces img face_location) (\<lambda>extracted.
        case extracted of
          None \<Rightarrow> Inr None
        | Some face_features \<Rightarrow> match_features s face_features))"

subsection \<open>The gallery of the embedding strategy (face_processor.py)\<close>

text \<open>
  The functions of the face_recognition library that the source calls, parameters of the
  model: the encoder (one 128-vector per face found in the RGB image, or per location
  given) and the landmark finder.
\<close>

record face_recognition =
  face_encodings :: "color_image \<Rightarrow> location list option \<Rightarrow> error + feature_vector list"
  face_landmarks :: "color_image \<Rightarrow> location list option \<Rightarrow> error + landmarks list"
  cvtColor_BGR2RGB :: "image \<Rightarrow> error + color_image"

record face_processor =
  known_face_encodings :: "feature_vector list"
  known_face_ids :: "int list"


text \<open>
  The loop of \<^verbatim>\<open>FaceProcessor.load_known_faces\<close>: 64-bit numbers, and 128 of them.
\<close>

fun load_loop ::
  "(byte list \<Rightarrow> real) \<Rightarrow> user_entry list \<Rightarrow> face_processor \<Rightarrow> face_processor" where
  "load_loop float64 [] s = s"
| "load_loop float64 (user # users) s =
     (case face_encoding user of
        None \<Rightarrow> load_loop float64 users s
      | Some buf \<Rightarrow>
          if buf = [] then load_loop float64 users s
          else
            (case frombuffer 8 float64 buf of
               Inl e \<Rightarrow> load_loop float64 users s
             | Inr encoding \<Rightarrow>
                 if length encoding = 128 then
                   load_loop float64 users
                     (s\<lparr>known_face_encodings := known_face_encodings s @ [encoding],
                        face_processor.known_face_ids :=
                          face_processor.known_face_ids s @ [id' user]\<rparr>)
                 else load_loop float64 users s))"

definition load_known_faces ::
  "(byte list \<Rightarrow> real) \<Rightarrow> user_entry list \<Rightarrow> face_processor \<Rightarrow> face_processor" where
  "load_known_faces float64 users s =
     load_loop float64 users
       (s\<lparr>known_face_encodings := [], face_processor.known_face_ids := []\<rparr>)"

text \<open>
  \<^verbatim>\<open>FaceProcessor.encode_face\<close>: the first encoding the library returns, or \<^verbatim>\<open>None\<close>.
\<close>

definition encode_face ::
  "cv2 \<Rightarrow> face_recognition \<Rightarrow> image \<Rightarrow> location option \<Rightarrow> error + feature_vector option" where
  "encode_face cv fr img face_location =
     bind (normalize cv img) (\<lambda>normalized.
     bind (cvtColor_BGR2RGB fr normalized) (\<lambda>rgb_image.
     bind (case face_location of
             Some l \<Rightarrow> face_encodings fr rgb_image (Some [l])
           | None \<Rightarrow> face_encodings fr rgb_image None) (\<lambda>encodings.
     case encodings of [] \<Rightarrow> Inr None | e # _ \<Rightarrow> Inr (Some e))))"

text \<open>
  \<^verbatim>\<open>face_recognition.face_distance\<close>: the Euclidean distance of the probe to every known
  encoding (\<^verbatim>\<open>np.linalg.norm(known - probe, axis=1)\<close>); the subtraction broadcasts as
  \<^verbatim>\<open>np.minimum\<close> does.
\<close>

definition np_subtract :: "real list \<Rightarrow> real list \<Rightarrow> error + real list" where
  "np_subtract a b =
     (if length a = length b then Inr (map (\<lambda>(x, y). x - y) (zip a b))
      else if length a = 1 then Inr (map (\<lambda>y. hd a - y) b)
      else if length b = 1 then Inr (map (\<lambda>x. x - hd b) a)
      else Inl ValueError)"

definition norm2 :: "real list \<Rightarrow> real" where
  "norm2 v = sqrt (sum_list (map (\<lambda>x. x\<^sup>2) v))"

fun face_distance :: "feature_vector list \<Rightarrow> feature_vector \<Rightarrow> error + real list" where
  "face_distance [] face_to_compare = Inr []"
| "face_distance (known # rest) face_to_compare =
     bind (np_subtract known face_to_compare) (\<lambda>d.
     bind (face_distance rest face_to_compare) (\<lambda>ds.
     Inr (norm2 d # ds)))"

text \<open>\<^verbatim>\<open>np.argmin\<close> of a non-empty vector: the first index of the least value.\<close>

fun argmin_from :: "real list \<Rightarrow> nat \<Rightarrow> nat \<times> real \<Rightarrow> nat" where
  "argmin_from [] i best = fst best"
| "argmin_from (x # xs) i best =
     (if x < snd best then argmin_from xs (i + 1) (i, x) else argmin_from xs (i + 1) best)"

definition argmin :: "real list \<Rightarrow> nat" where
  "argmin xs = argmin_from (tl xs) 1 (0, hd xs)"

text \<open>
  \<^verbatim>\<open>FaceProcessor.identify_face\<close>, lines 361 to 382: the distances to all known faces and
  the decision on the nearest.
\<close>

definition match_encoding :: "face_processor \<Rightarrow> feature_vector \<Rightarrow> error + match option" where
  "match_encoding s face_encoding' =
     bind (face_distance (known_face_encodings s) face_encoding') (\<lambda>distances.
     if length distances = 0 then Inr None
     else
       let best_match_index = argmin distances;
           best_distance = distances ! best_match_index
       in if best_distance \<le> FACE_RECOGNITION_TOLERANCE then
            let confidence = max 0 (1 - best_distance / FACE_RECOGNITION_TOLERANCE)
            in if best_match_index < length (face_processor.known_face_ids s)
               then Inr (Some \<lparr>user_id = face_processor.known_face_ids s ! best_match_index,
                                confidence = confidence,
                                distance = best_distance\<rparr>)
               else Inl IndexError
          else Inr None)"

text \<open>\<^verbatim>\<open>FaceProcessor.identify_face\<close>.\<close>

definition identify_face ::
  "cv2 \<Rightarrow> face_recognition \<Rightarrow> face_processor \<Rightarrow> image \<Rightarrow> location option \<Rightarrow>
     error + match option" where
  "identify_face cv fr s img face_location =
     (if known_face_encodings s = [] then Inr None
      else
        bind (encode_face cv fr img face_location) (\<lambda>encoded.
        case encoded of
          None \<Rightarrow> Inr None
        | Some face_encoding' \<Rightarrow> match_encoding s face_encoding'))"

subsection \<open>Liveness scores (SpoofDetector, both files)\<close>

text \<open>The grey version of a crop, as each scorer takes it.\<close>

definition to_gray :: "cv2 \<Rightarrow> image \<Rightarrow> error + gray_image" where
  "to_gray cv face_image =
     (case face_image of
        Color c \<Rightarrow> cvtColor_BGR2GRAY cv face_image
      | Gray g \<Rightarrow> Inr g)"

text \<open>
  \<^verbatim>\<open>SpoofDetector._calculate_lbp\<close> with its default radius 1 and 8 points: neighbour \<open>k\<close>
  lies at the rounded offset \<open>(cos, sin)\<close> of the angle \<open>2 pi k / 8\<close>, and sets bit \<open>k\<close>.
\<close>

definition lbp_neighbour :: "nat \<Rightarrow> nat \<Rightarrow> nat \<Rightarrow> nat \<times> nat" where
  "lbp_neighbour i j k =
     (let a = 2 * pi * real k / 8
      in (nat (round (real i + 1 * cos a)), nat (round (real j + 1 * sin a))))"

definition lbp_binary_string :: "gray_image \<Rightarrow> nat \<Rightarrow> nat \<Rightarrow> nat" where
  "lbp_binary_string img i j =
     foldl (\<lambda>binary_string k.
              case lbp_neighbour i j k of (x, y) \<Rightarrow>
                if img ! x ! y \<ge> img ! i ! j then binary_string OR push_bit k 1
                else binary_string)
           0 [0..<8]"

definition calculate_lbp_radial :: "gray_image \<Rightarrow> gray_image" where
  "calculate_lbp_radial img =
     map (\<lambda>i. map (\<lambda>j. if 1 \<le> i \<and> i + 1 < rows img \<and> 1 \<le> j \<and> j + 1 < cols img
                        then of_nat (lbp_binary_string img i j) else 0)
                   [0..<cols img])
         [0..<rows img]"

text \<open>
  \<^verbatim>\<open>analyze_texture_lbp\<close>: the entropy of the 256-bin histogram of the codes, over 8,
  capped at 1.
\<close>

definition analyze_texture_lbp :: "cv2 \<Rightarrow> image \<Rightarrow> error + real" where
  "analyze_texture_lbp cv face_image =
     bind (to_gray cv face_image) (\<lambda>gray.
     bind (resize_gray cv gray (128, 128)) (\<lambda>gray.
       let lbp = calculate_lbp_radial gray;
           hist = map real (np_histogram (ravel_u8 lbp) 256 (0, 256));
           hist = map (\<lambda>x. x / (sum_list hist + eps)) hist;
           entropy = - sum_list (map (\<lambda>h. h * log 2 (h + eps)) hist);
           texture_score = min (entropy / 8) 1
       in Inr texture_score))"

text \<open>
  \<^verbatim>\<open>analyze_reflection\<close>: one minus ten times the share of pixels brighter than 240, at
  least 0.
\<close>

definition analyze_reflection :: "cv2 \<Rightarrow> image \<Rightarrow> error + real" where
  "analyze_reflection cv face_image =
     bind (to_gray cv face_image) (\<lambda>gray.
     bind (threshold_binary cv gray 240 255) (\<lambda>bright_mask.
       let bright_ratio = real (length (filter (\<lambda>p. 0 < unat p) (ravel bright_mask)))
                            / real (length (ravel bright_mask));
           reflection_score = 1 - min (bright_ratio * 10) 1
       in Inr reflection_score))"

text \<open>
  \<^verbatim>\<open>analyze_blur\<close> (face_processor_cv.py only): the variance of the Laplacian over 500,
  capped at 1.
\<close>

definition np_var :: "real list \<Rightarrow> real" where
  "np_var xs =
     (let mean = sum_list xs / real (length xs)
      in sum_list (map (\<lambda>x. (x - mean)\<^sup>2) xs) / real (length xs))"

definition analyze_blur :: "cv2 \<Rightarrow> image \<Rightarrow> error + real" where
  "analyze_blur cv face_image =
     bind (to_gray cv face_image) (\<lambda>gray.
     bind (Laplacian cv gray) (\<lambda>lap.
       let laplacian_var = np_var (ravel lap);
           blur_score = min (laplacian_var / 500) 1
       in Inr blur_score))"

subsection \<open>The liveness check\<close>

text \<open>
  The dictionary that \<^verbatim>\<open>check_liveness\<close> returns; a key that one of the two versions does
  not set is \<open>None\<close>.
\<close>

record liveness =
  texture_score :: real
  reflection_score :: real
  blur_score :: "real option"
  ear :: "real option"
  blink_count :: "nat option"
  confidence :: real
  is_live :: bool

text \<open>
  \<^verbatim>\<open>SpoofDetector.check_liveness\<close> of face_processor_cv.py. An absent or empty image, and any
  exception of a scorer, give the all-ones result; the landmarks are not used.
\<close>

definition fail_open :: liveness where
  "fail_open =
     \<lparr>texture_score = 1, reflection_score = 1, blur_score = Some 1, ear = None,
      blink_count = None, confidence = 1, is_live = True\<rparr>"

definition check_liveness_cv :: "cv2 \<Rightarrow> image option \<Rightarrow> landmarks option \<Rightarrow> liveness" where
  "check_liveness_cv cv face_image face_landmarks' =
     (case face_image of
        None \<Rightarrow> fail_open
      | Some img \<Rightarrow>
          if size_of img = 0 then fail_open
          else
            (case bind (analyze_texture_lbp cv img) (\<lambda>texture_score'.
                  bind (analyze_reflection cv img) (\<lambda>reflection_score'.
                  bind (analyze_blur cv img) (\<lambda>blur_score'.
                  Inr (texture_score', reflection_score', blur_score')))) of
               Inl e \<Rightarrow> fail_open
             | Inr (texture_score', reflection_score', blur_score') \<Rightarrow>
                 let confidence' =
                       texture_score' * (4 / 10) + reflection_score' * (3 / 10) +
                       blur_score' * (3 / 10)
                 in \<lparr>texture_score = texture_score', reflection_score = reflection_score',
                     blur_score = Some blur_score', ear = None, blink_count = None,
                     confidence = confidence',
                     is_live = (confidence' \<ge> LBP_THRESHOLD)\<rparr>))"

text \<open>
  \<^verbatim>\<open>SpoofDetector.check_liveness\<close> of face_processor.py. Nothing is checked before the
  scorers run and nothing they raise is caught; a landmark dictionary that is given and
  not empty is passed to the blink detector, whose ratio and blink count are reported.
\<close>

definition check_liveness ::
  "cv2 \<Rightarrow> image \<Rightarrow> landmarks option \<Rightarrow> spoof_detector \<Rightarrow> error + (liveness \<times> spoof_detector)" where
  "check_liveness cv face_image face_landmarks' s =
     bind (analyze_texture_lbp cv face_image) (\<lambda>texture_score'.
     bind (analyze_reflection cv face_image) (\<lambda>reflection_score'.
     bind (case face_landmarks' of
             None \<Rightarrow> Inr (None, None, s)
           | Some lm \<Rightarrow>
               if lm = [] then Inr (None, None, s)
               else bind (detect_blink lm s) (\<lambda>((_, ear'), s').
                      Inr (Some ear', Some (blink_counter s'), s')))
          (\<lambda>(ear', blink_count', s').
       let confidence' = texture_score' * (6 / 10) + reflection_score' * (4 / 10)
       in Inr (\<lparr>texture_score = texture_score', reflection_score = reflection_score',
                 blur_score = None, ear = ear', blink_count = blink_count',
                 confidence = confidence',
                 is_live = (confidence' \<ge> LBP_THRESHOLD)\<rparr>, s'))))"

subsection \<open>What the model expects of OpenCV\<close>

definition nonempty :: "'a list list \<Rightarrow> bool" where
  "nonempty m \<longleftrightarrow> 0 < rows m \<and> 0 < cols m"

text \<open>A conversion succeeds on a non-empty image and keeps its height and width.\<close>

definition keeps_shape :: "('a list list \<Rightarrow> error + 'b list list) \<Rightarrow> bool" where
  "keeps_shape f \<longleftrightarrow>
     (\<forall>m h w. has_shape h w m \<and> 0 < h \<and> 0 < w \<longrightarrow> (\<exists>r. f m = Inr r \<and> has_shape h w r))"

text \<open>
  What the documentation of OpenCV promises and the feature extractor relies on: resizing
  a non-empty image gives the size asked for; the colour conversions and the equalisations
  keep the shape; and 8-bit hues are below 180.
\<close>

definition opencv_contract :: "cv2 \<Rightarrow> bool" where
  "opencv_contract cv \<longleftrightarrow>
     (\<forall>c w h. nonempty c \<and> 0 < w \<and> 0 < h \<longrightarrow>
        (\<exists>r. resize_color cv c (w, h) = Inr r \<and> has_shape h w r)) \<and>
     (\<forall>g w h. nonempty g \<and> 0 < w \<and> 0 < h \<longrightarrow>
        (\<exists>r. resize_gray cv g (w, h) = Inr r \<and> has_shape h w r)) \<and>
     keeps_shape (\<lambda>c. cvtColor_BGR2LAB cv (Color c)) \<and>
     keeps_shape (cvtColor_LAB2BGR cv) \<and>
     keeps_shape (\<lambda>c. cvtColor_BGR2GRAY cv (Color c)) \<and>
     keeps_shape (\<lambda>c. cvtColor_BGR2HSV cv (Color c)) \<and>
     keeps_shape (clahe_apply cv) \<and>
     keeps_shape (equalizeHist cv) \<and>
     (\<forall>c r. cvtColor_BGR2HSV cv (Color c) = Inr r \<longrightarrow>
        list_all (\<lambda>p. unat (fst p) < 180) (ravel r))"

text \<open>
  OpenCV refuses an empty source: \<^verbatim>\<open>cv2.resize\<close> and \<^verbatim>\<open>cv2.cvtColor\<close> raise
  \<^verbatim>\<open>cv2.error\<close> on it.
\<close>

definition raises_on_empty :: "cv2 \<Rightarrow> bool" where
  "raises_on_empty cv \<longleftrightarrow>
     (\<forall>g d. \<not> nonempty g \<longrightarrow> resize_gray cv g d = Inl CvError) \<and>
     (\<forall>c. \<not> nonempty c \<longrightarrow> cvtColor_BGR2GRAY cv (Color c) = Inl CvError)"

subsection \<open>A small instance of the OpenCV parameters\<close>

text \<open>
  For evaluating the engine on concrete images: nearest-neighbour resizing, the BT.601
  luma as grey level, colour conversions that are right on grey pixels (hue and saturation
  0; lightness the luma, with neutral chroma), an equalisation that leaves the plane as it
  is, the binary threshold, and the 4-neighbour Laplacian. Every function refuses an
  empty image.
\<close>

definition resize_nearest :: "'a list list \<Rightarrow> nat \<times> nat \<Rightarrow> error + 'a list list" where
  "resize_nearest m dsize =
     (case dsize of (w, h) \<Rightarrow>
        if \<not> nonempty m \<or> w = 0 \<or> h = 0 then Inl CvError
        else Inr (map (\<lambda>i. map (\<lambda>j. m ! (i * rows m div h) ! (j * cols m div w)) [0..<w])
                      [0..<h]))"

definition pointwise :: "('a \<Rightarrow> 'b) \<Rightarrow> 'a list list \<Rightarrow> error + 'b list list" where
  "pointwise f m = (if \<not> nonempty m then Inl CvError else Inr (map (map f) m))"

definition on_color ::
  "(pixel \<times> pixel \<times> pixel \<Rightarrow> 'b) \<Rightarrow> image \<Rightarrow> error + 'b list list" where
  "on_color f img = (case img of Color c \<Rightarrow> pointwise f c | Gray g \<Rightarrow> Inl CvError)"

definition luma :: "pixel \<times> pixel \<times> pixel \<Rightarrow> pixel" where
  "luma p =
     (case p of (b, g, r) \<Rightarrow>
        of_nat ((114 * unat b + 587 * unat g + 299 * unat r + 500) div 1000))"

definition laplacian4 :: "gray_image \<Rightarrow> error + real list list" where
  "laplacian4 g =
     (if \<not> nonempty g then Inl CvError
      else Inr (map (\<lambda>i. map (\<lambda>j.
                  real_of_int (px g (i - 1) j + px g (i + 1) j + px g i (j - 1) +
                               px g i (j + 1) - 4 * px g i j))
                (map int [0..<cols g]))
               (map int [0..<rows g])))"

definition cv_simple :: cv2 where
  "cv_simple =
     \<lparr>resize_gray = resize_nearest,
      resize_color = resize_nearest,
      cvtColor_BGR2GRAY = on_color luma,
      cvtColor_BGR2HSV = on_color (\<lambda>p. (0, 0, luma p)),
      cvtColor_BGR2LAB = on_color (\<lambda>p. (luma p, 128, 128)),
      cvtColor_LAB2BGR = pointwise (\<lambda>p. (fst p, fst p, fst p)),
      clahe_apply = pointwise id,
      equalizeHist = pointwise id,
      threshold_binary =
        (\<lambda>g thresh maxval. pointwise (\<lambda>p. if thresh < unat p then of_nat maxval else 0) g),
      Laplacian = laplacian4\<rparr>"

text \<open>A black image of 20 by 20 pixels, and the rectangle that covers it.\<close>

definition black20 :: image where
  "black20 = Color (replicate 20 (replicate 20 (0, 0, 0)))"

definition whole20 :: location where
  "whole20 = (0, 20, 20, 0)"

subsection \<open>The rest of the processor interface\<close>

text \<open>
  \<^verbatim>\<open>FaceProcessorCV.encode_face\<close>: the features at the location given, or at the first face
  detected.
\<close>

definition encode_face_cv ::
  "cv2 \<Rightarrow> (image \<Rightarrow> error + location list) \<Rightarrow> image \<Rightarrow> location option \<Rightarrow>
     error + feature_vector option" where
  "encode_face_cv cv detect_faces img face_location =
     (case face_location of
        Some l \<Rightarrow> extract_face_features cv img l
      | None \<Rightarrow>
          bind (detect_faces img) (\<lambda>face_locations.
            case face_locations of
              [] \<Rightarrow> Inr None
            | l # _ \<Rightarrow> extract_face_features cv img l))"





text \<open>
  The object \<^verbatim>\<open>face_processor\<close> of main.py is one of the two processors, whichever
  imports; main.py uses only these methods of it. \<open>'g\<close> is the gallery it holds and
  \<open>'d\<close> the state of its spoof detector.
\<close>

record ('g, 'd) processor =
  fp_detect_faces :: "image \<Rightarrow> error + location list"
  fp_get_face_landmarks :: "image \<Rightarrow> location \<Rightarrow> error + landmarks"
  fp_check_liveness :: "image \<Rightarrow> landmarks \<Rightarrow> 'd \<Rightarrow> error + (liveness \<times> 'd)"
  fp_encode_face :: "image \<Rightarrow> location option \<Rightarrow> error + feature_vector option"
  fp_identify_face :: "'g \<Rightarrow> image \<Rightarrow> location option \<Rightarrow> error + match option"
  fp_load_known_faces :: "user_entry list \<Rightarrow> 'g \<Rightarrow> 'g"

text \<open>
  The handcrafted processor as such an object; its landmark method returns the empty
  dictionary, and its spoof detector has no state that the liveness check uses.
\<close>

definition FaceProcessorCV ::
  "cv2 \<Rightarrow> (image \<Rightarrow> error + location list) \<Rightarrow> (byte list \<Rightarrow> real) \<Rightarrow>
     (face_processor_cv, unit) processor" where
  "FaceProcessorCV cv detect_faces float32 =
     \<lparr>fp_detect_faces = detect_faces,
      fp_get_face_landmarks = (\<lambda>img l. Inr []),
      fp_check_liveness = (\<lambda>face_image lm d. Inr (check_liveness_cv cv (Some face_image) (Some lm), d)),
      fp_encode_face = encode_face_cv cv detect_faces,
      fp_identify_face = identify_face_cv cv detect_faces,
      fp_load_known_faces = load_known_faces_cv float32\<rparr>"

text \<open>
  The embedding processor as such an object; \<open>face_locations\<close> is the detector of the
  library, and the landmarks are the first dictionary the library returns, or the empty
  one.
\<close>

definition get_face_landmarks ::
  "face_recognition \<Rightarrow> image \<Rightarrow> location \<Rightarrow> error + landmarks" where
  "get_face_landmarks fr img face_location =
     bind (cvtColor_BGR2RGB fr img) (\<lambda>rgb_image.
     bind (face_landmarks fr rgb_image (Some [face_location])) (\<lambda>landmarks_list.
     case landmarks_list of [] \<Rightarrow> Inr [] | lm # _ \<Rightarrow> Inr lm))"

definition FaceProcessor ::
  "cv2 \<Rightarrow> face_recognition \<Rightarrow> (image \<Rightarrow> error + location list) \<Rightarrow> (byte list \<Rightarrow> real) \<Rightarrow>
     (face_processor, spoof_detector) processor" where
  "FaceProcessor cv fr face_locations float64 =
     \<lparr>fp_detect_faces = face_locations,
      fp_get_face_landmarks = get_face_landmarks fr,
      fp_check_liveness = (\<lambda>face_image lm d. check_liveness cv face_image (Some lm) d),
      fp_encode_face = encode_face cv fr,
      fp_identify_face = identify_face cv fr,
      fp_load_known_faces = load_known_faces float64\<rparr>"

subsection \<open>The user store (database.py)\<close>

text \<open>The columns of the table \<^verbatim>\<open>users\<close>, and the table as the list of its rows.\<close>

record User =
  User_id :: int
  User_employee_id :: string
  User_name :: string
  User_email :: "string option"
  User_department :: "string option"
  User_face_encoding :: "byte list option"
  User_face_image_path :: "string option"
  User_is_active :: bool








subsection \<open>Enrollment (main.py)\<close>



text \<open>
  The form of \<^verbatim>\<open>/api/register\<close>, the functions of OpenCV and NumPy it touches, and the
  ways it ends: an HTTP 400 with one of the details, or an HTTP 500 for any other
  exception.
\<close>

record registration =
  employee_id :: string
  name :: string
  email :: "string option"
  department :: "string option"
  face_image :: "byte list"


datatype http_error =
    EmployeeIdRegistered
  | EmailRegistered
  | InvalidImage
  | NoFaceDetected
  | MultipleFaces
  | SpoofDetectionFailed real
  | NoEncoding
  | FaceAlreadyRegistered User
  | InternalServerError error

text \<open>
  Lines 139 to 202 of \<^verbatim>\<open>register_user\<close>: the checks before the enrollment guard. What is
  left of the state is returned with the outcome, since the liveness check may have moved
  the spoof detector. On success the image, the location, the face region and the probe
  encoding go on to the guard.
\<close>

definition http_500 ::
  "error + 'a \<Rightarrow> 's \<Rightarrow> ('a \<Rightarrow> (http_error + 'b) \<times> 's) \<Rightarrow> (http_error + 'b) \<times> 's" where
  "http_500 m st f = (case m of Inl e \<Rightarrow> (Inl (InternalServerError e), st) | Inr x \<Rightarrow> f x)"









subsection \<open>The gallery a load is expected to leave\<close>

text \<open>
  The load contract in the words of the specification: an entry is kept when its buffer
  deserialises to a vector of the expected length, and the gallery holds the kept entries
  in input order.
\<close>

definition kept ::
  "nat \<Rightarrow> nat \<Rightarrow> (byte list \<Rightarrow> real) \<Rightarrow> user_entry \<Rightarrow> (int \<times> feature_vector) option" where
  "kept itemsize n decode u =
     (case face_encoding u of
        None \<Rightarrow> None
      | Some buf \<Rightarrow>
          (case frombuffer itemsize decode buf of
             Inl e \<Rightarrow> None
           | Inr v \<Rightarrow> if length v = n then Some (id' u, v) else None))"

definition expected_gallery ::
  "nat \<Rightarrow> nat \<Rightarrow> (byte list \<Rightarrow> real) \<Rightarrow> user_entry list \<Rightarrow> (int \<times> feature_vector) list" where
  "expected_gallery itemsize n decode users = List.map_filter (kept itemsize n decode) users"

subsection \<open>The identify contract in the words of the specification\<close>

text \<open>
  The histogram intersection of a probe with a gallery vector, normalised by the mass of
  the gallery vector; the similarities of a probe to the whole gallery, in gallery order;
  and the position of the first element of a list with a given property.
\<close>

definition similarity :: "feature_vector \<Rightarrow> feature_vector \<Rightarrow> real" where
  "similarity known face =
     sum_list (map (\<lambda>(x, y). min x y) (zip known face)) / (sum_list known + eps)"


definition first_index :: "('a \<Rightarrow> bool) \<Rightarrow> 'a list \<Rightarrow> nat" where
  "first_index P xs = length (takeWhile (\<lambda>x. \<not> P x) xs)"



subsection \<open>Instances for evaluation\<close>





section \<open>Properties\<close>

subsection \<open>Blink detection\<close>

lemma eye_of_ratio_ear:
  "0 \<le> e \<Longrightarrow> calculate_eye_aspect_ratio (eye_of_ratio e) = Inr e"
  by (simp add: calculate_eye_aspect_ratio_def eye_of_ratio_def euclidean_def)

lemma detect_blink_frame_of_ratio:
  "0 \<le> e \<Longrightarrow> detect_blink (frame_of_ratio e) s = Inr (blink_update e s)"
  by (simp add: detect_blink_def frame_of_ratio_def eye_of_ratio_ear)

text \<open>
  C6. The blink detector is a hysteresis over the sequence of eye aspect ratios. On a frame
  with both eyes: while the ratio is below the threshold the consecutive-frame counter goes
  up by one and no blink is registered; on a frame at or above the threshold, one blink is
  registered exactly when the counter had reached the required number of frames, and the
  counter is reset either way. A fresh detector has threshold 0.25 and requires 3 frames;
  on the ratios 0.35, 0.35, 0.10, 0.10, 0.10, 0.35 it registers exactly one blink, at the
  last frame, and on 0.35, 0.10, 0.35 it registers none.
\<close>

theorem blink_hysteresis:
  "(detect_blink lm s = Inr ((b, ratio), s') \<and>
      map_of lm ''left_eye'' \<noteq> None \<and> map_of lm ''right_eye'' \<noteq> None \<longrightarrow>
      (if ratio < blink_threshold s
       then \<not> b \<and> frame_counter s' = frame_counter s + 1 \<and>
            blink_counter s' = blink_counter s
       else (b \<longleftrightarrow> frame_counter s \<ge> eye_ar_consecutive_frames s) \<and>
            blink_counter s' = blink_counter s + (if b then 1 else 0) \<and>
            frame_counter s' = 0)) \<and>
   blink_threshold SpoofDetector_init = 25 / 100 \<and>
   eye_ar_consecutive_frames SpoofDetector_init = 3 \<and>
   detect_blinks
       (map frame_of_ratio [35 / 100, 35 / 100, 10 / 100, 10 / 100, 10 / 100, 35 / 100])
       SpoofDetector_init =
     Inr ([False, False, False, False, False, True],
          SpoofDetector_init\<lparr>blink_counter := 1, frame_counter := 0,
                              previous_ear := Some (35 / 100)\<rparr>) \<and>
   detect_blinks (map frame_of_ratio [35 / 100, 10 / 100, 35 / 100]) SpoofDetector_init =
     Inr ([False, False, False],
          SpoofDetector_init\<lparr>blink_counter := 0, frame_counter := 0,
                              previous_ear := Some (35 / 100)\<rparr>)"
proof (intro conjI)
  show "detect_blink lm s = Inr ((b, ratio), s') \<and>
      map_of lm ''left_eye'' \<noteq> None \<and> map_of lm ''right_eye'' \<noteq> None \<longrightarrow>
      (if ratio < blink_threshold s
       then \<not> b \<and> frame_counter s' = frame_counter s + 1 \<and>
            blink_counter s' = blink_counter s
       else (b \<longleftrightarrow> frame_counter s \<ge> eye_ar_consecutive_frames s) \<and>
            blink_counter s' = blink_counter s + (if b then 1 else 0) \<and>
            frame_counter s' = 0)"
    by (auto simp: detect_blink_def blink_update_def
             split: sum.splits if_splits option.splits)
qed (simp_all add: detect_blink_frame_of_ratio blink_update_def SpoofDetector_init_def
       BLINK_THRESHOLD_def)

theorem blink_hysteresis_witness:
  "detect_blink (frame_of_ratio (35 / 100)) (SpoofDetector_init\<lparr>frame_counter := 3\<rparr>) =
     Inr ((True, 35 / 100),
          SpoofDetector_init\<lparr>blink_counter := 1, frame_counter := 0,
                              previous_ear := Some (35 / 100)\<rparr>) \<and>
   map_of (frame_of_ratio (35 / 100)) ''left_eye'' \<noteq> None \<and>
   map_of (frame_of_ratio (35 / 100)) ''right_eye'' \<noteq> None \<and>
   \<not> (35 / 100 < blink_threshold (SpoofDetector_init\<lparr>frame_counter := 3\<rparr>)) \<and>
   eye_ar_consecutive_frames (SpoofDetector_init\<lparr>frame_counter := 3\<rparr>)
     \<le> frame_counter (SpoofDetector_init\<lparr>frame_counter := 3\<rparr>)"
proof -
  let ?s = "SpoofDetector_init\<lparr>frame_counter := 3\<rparr>"
  let ?s' = "SpoofDetector_init\<lparr>blink_counter := 1, frame_counter := 0,
                                previous_ear := Some (35 / 100)\<rparr>"
  have run: "detect_blink (frame_of_ratio (35 / 100)) ?s = Inr ((True, 35 / 100), ?s')"
    by (simp add: detect_blink_frame_of_ratio blink_update_def SpoofDetector_init_def
          BLINK_THRESHOLD_def)
  have eyes: "map_of (frame_of_ratio (35 / 100)) ''left_eye'' \<noteq> None"
    "map_of (frame_of_ratio (35 / 100)) ''right_eye'' \<noteq> None"
    by (simp_all add: frame_of_ratio_def)
  have above: "\<not> (35 / 100 < blink_threshold ?s)"
    by (simp add: SpoofDetector_init_def BLINK_THRESHOLD_def)
  from blink_hysteresis [of "frame_of_ratio (35 / 100)" ?s True "35 / 100" ?s']
  have "detect_blink (frame_of_ratio (35 / 100)) ?s = Inr ((True, 35 / 100), ?s') \<and>
      map_of (frame_of_ratio (35 / 100)) ''left_eye'' \<noteq> None \<and>
      map_of (frame_of_ratio (35 / 100)) ''right_eye'' \<noteq> None \<longrightarrow>
      (if 35 / 100 < blink_threshold ?s
       then \<not> True \<and> frame_counter ?s' = frame_counter ?s + 1 \<and>
            blink_counter ?s' = blink_counter ?s
       else (True \<longleftrightarrow> frame_counter ?s \<ge> eye_ar_consecutive_frames ?s) \<and>
            blink_counter ?s' = blink_counter ?s + (if True then 1 else 0) \<and>
            frame_counter ?s' = 0)"
    by (rule conjunct1)
  with run eyes above
  have "eye_ar_consecutive_frames ?s \<le> frame_counter ?s"
    by simp
  with run eyes above show ?thesis
    by simp
qed

subsection \<open>Similarity of a vector with itself\<close>







subsection \<open>Loading the gallery\<close>

lemma load_loop_cv_spec:
  "known_face_features (load_loop_cv d users s) =
     known_face_features s @ map snd (expected_gallery 4 132 d users) \<and>
   face_processor_cv.known_face_ids (load_loop_cv d users s) =
     face_processor_cv.known_face_ids s @ map fst (expected_gallery 4 132 d users)"
proof (induction users arbitrary: s)
  case Nil
  show ?case by (simp add: expected_gallery_def map_filter_simps)
next
  case (Cons u users)
  show ?case
    by (cases "face_encoding u")
       (auto simp: Cons expected_gallery_def map_filter_simps kept_def frombuffer_def
             split: sum.splits option.splits)
qed

lemma load_loop_spec:
  "known_face_encodings (load_loop d users s) =
     known_face_encodings s @ map snd (expected_gallery 8 128 d users) \<and>
   face_processor.known_face_ids (load_loop d users s) =
     face_processor.known_face_ids s @ map fst (expected_gallery 8 128 d users)"
proof (induction users arbitrary: s)
  case Nil
  show ?case by (simp add: expected_gallery_def map_filter_simps)
next
  case (Cons u users)
  show ?case
    by (cases "face_encoding u")
       (auto simp: Cons expected_gallery_def map_filter_simps kept_def frombuffer_def
             split: sum.splits option.splits)
qed

lemma kept_iff:
  assumes "0 < itemsize"
  shows "kept itemsize n d u \<noteq> None \<longleftrightarrow>
     (\<exists>buf. face_encoding u = Some buf \<and> length buf = n * itemsize)"
proof (cases "face_encoding u")
  case None
  then show ?thesis by (simp add: kept_def)
next
  case (Some buf)
  have "(length buf mod itemsize = 0 \<and> length buf div itemsize = n) \<longleftrightarrow>
        length buf = n * itemsize"
    using assms by (auto simp: div_mult_mod_eq dest: sym)
  then show ?thesis
    using Some by (auto simp: kept_def frombuffer_def split: if_splits)
qed

text \<open>
  C5. Whatever the gallery held before, after \<^verbatim>\<open>load_known_faces\<close> it holds exactly the
  input entries whose buffer deserialises to a vector of the expected length (132 numbers
  of 4 bytes for the handcrafted strategy, 128 numbers of 8 bytes for the embedding
  strategy), in input order; every other entry is skipped and the loading goes on. An entry
  is kept exactly when it has a buffer of 528, respectively 1024, bytes.
\<close>

theorem load_known_faces_gallery:
  "known_face_features (load_known_faces_cv d users s) =
     map snd (expected_gallery 4 132 d users) \<and>
   face_processor_cv.known_face_ids (load_known_faces_cv d users s) =
     map fst (expected_gallery 4 132 d users) \<and>
   known_face_encodings (load_known_faces d' users s') =
     map snd (expected_gallery 8 128 d' users) \<and>
   face_processor.known_face_ids (load_known_faces d' users s') =
     map fst (expected_gallery 8 128 d' users) \<and>
   (kept 4 132 d u \<noteq> None \<longleftrightarrow> (\<exists>buf. face_encoding u = Some buf \<and> length buf = 528)) \<and>
   (kept 8 128 d' u \<noteq> None \<longleftrightarrow> (\<exists>buf. face_encoding u = Some buf \<and> length buf = 1024))"
  using kept_iff [of 4 132 d u] kept_iff [of 8 128 d' u]
  by (simp add: load_known_faces_cv_def load_known_faces_def load_loop_cv_spec load_loop_spec)

subsection \<open>The two lists of the gallery\<close>













subsection \<open>Histograms, orientations and magnitudes\<close>

lemma length_np_histogram [simp]: "length (np_histogram a n r) = n"
  by (simp add: np_histogram_def)

lemma length_np_histogram_weighted [simp]: "length (np_histogram_weighted a n r w) = n"
  by (simp add: np_histogram_weighted_def)

lemma length_hists [simp]:
  "length (lbp_hist g) = 64" "length (gray_hist g) = 32"
  "length (hog_hist g) = 18" "length (color_hist h) = 18"
  by (simp_all add: lbp_hist_def gray_hist_def hog_hist_def color_hist_def Let_def)


lemma bin_index_less:
  assumes "0 < n" "lo < hi" "bin_index n (lo, hi) x = Some b"
  shows "b < n"
proof (cases "x = hi")
  case True
  with assms show ?thesis by (auto simp: bin_index_def split: if_splits)
next
  case False
  with assms have x: "lo \<le> x" "x < hi" and b: "b = nat \<lfloor>(x - lo) * real n / (hi - lo)\<rfloor>"
    by (auto simp: bin_index_def split: if_splits)
  let ?r = "(x - lo) * real n / (hi - lo)"
  have "(x - lo) * real n < real n * (hi - lo)"
    using x assms(1) by (simp add: mult.commute)
  then have "?r < real n"
    using assms(2) by (simp add: pos_divide_less_eq)
  then have "\<lfloor>?r\<rfloor> < int n" by (simp add: floor_less_iff)
  moreover have "0 \<le> ?r" using x assms by simp
  then have "0 \<le> \<lfloor>?r\<rfloor>" by simp
  ultimately show ?thesis unfolding b by (simp add: nat_less_iff)
qed

lemma bin_index_in_range:
  "lo \<le> x \<Longrightarrow> x \<le> hi \<Longrightarrow> \<exists>b. bin_index n (lo, hi) x = Some b"
  by (simp add: bin_index_def)

lemma bin_index_out:
  "bin_index n (lo, hi) x = Some b \<Longrightarrow> lo \<le> x \<and> x \<le> hi"
  by (auto simp: bin_index_def split: if_splits)

text \<open>Summing a family of indicator-weighted sums over all bins.\<close>

lemma sum_bins_single:
  assumes "b < n"
  shows "(\<Sum>k\<leftarrow>[0..<n]. if Some b = Some k then (w::real) else 0) = w"
proof -
  have "(\<Sum>k\<leftarrow>[0..<n]. if Some b = Some k then w else 0) =
        (\<Sum>k\<in>{0..<n}. if b = k then w else 0)"
    by (simp add: interv_sum_list_conv_sum_set_nat)
  also have "\<dots> = w" using assms by simp
  finally show ?thesis .
qed

lemma sum_hist_weighted:
  assumes "0 < n" "lo < hi"
  shows "sum_list (map (\<lambda>b. sum_list (map snd (filter (\<lambda>xw. bin_index n (lo, hi) (fst xw) = Some b) zs)))
                       [0..<n]) =
         sum_list (map (\<lambda>xw. if lo \<le> fst xw \<and> fst xw \<le> hi then snd xw else (0::real)) zs)"
proof (induction zs)
  case Nil
  show ?case by simp
next
  case (Cons z zs)
  have split: "(\<Sum>b\<leftarrow>[0..<n]. sum_list (map snd (filter (\<lambda>xw. bin_index n (lo, hi) (fst xw) = Some b) (z # zs)))) =
     (\<Sum>b\<leftarrow>[0..<n]. (if bin_index n (lo, hi) (fst z) = Some b then snd z else 0)) +
     (\<Sum>b\<leftarrow>[0..<n]. sum_list (map snd (filter (\<lambda>xw. bin_index n (lo, hi) (fst xw) = Some b) zs)))"
    by (simp add: sum_list_addf [symmetric] if_distrib cong: if_cong) (rule arg_cong [where f = sum_list], auto)
  have one: "(\<Sum>b\<leftarrow>[0..<n]. (if bin_index n (lo, hi) (fst z) = Some b then snd z else 0)) =
     (if lo \<le> fst z \<and> fst z \<le> hi then snd z else 0)"
  proof (cases "bin_index n (lo, hi) (fst z)")
    case None
    have "\<not> (lo \<le> fst z \<and> fst z \<le> hi)"
    proof
      assume "lo \<le> fst z \<and> fst z \<le> hi"
      then have "\<exists>b. bin_index n (lo, hi) (fst z) = Some b"
        by (simp add: bin_index_in_range)
      with None show False by simp
    qed
    with None show ?thesis by auto
  next
    case (Some b)
    then have "b < n" using assms bin_index_less by blast
    moreover have "lo \<le> fst z \<and> fst z \<le> hi" using Some by (rule bin_index_out)
    ultimately show ?thesis using Some sum_bins_single [of b n "snd z"] by simp
  qed
  show ?case unfolding split one Cons.IH by simp
qed

lemma sum_hist_counts:
  assumes "0 < n" "lo < hi"
  shows "sum_list (map real (np_histogram a n (lo, hi))) =
         real (length (filter (\<lambda>x. lo \<le> x \<and> x \<le> hi) a))"
proof -
  have w: "map real (np_histogram a n (lo, hi)) =
           map (\<lambda>b. sum_list (map snd (filter (\<lambda>xw. bin_index n (lo, hi) (fst xw) = Some b)
                                          (map (\<lambda>x. (x, 1)) a))))
               [0..<n]"
    by (simp add: np_histogram_def filter_map comp_def sum_list_triv)
  have c: "sum_list (map (\<lambda>xw. if lo \<le> fst xw \<and> fst xw \<le> hi then snd xw else (0::real))
                         (map (\<lambda>x. (x, 1)) a)) =
           real (length (filter (\<lambda>x. lo \<le> x \<and> x \<le> hi) a))"
    by (induction a) auto
  show ?thesis unfolding w sum_hist_weighted [OF assms] c ..
qed

lemma sum_list_divide:
  "sum_list (map (\<lambda>x. x / c) h) = sum_list h / (c::real)"
  by (induction h) (simp_all add: add_divide_distrib)

lemma near_one:
  assumes "1 \<le> (S::real)"
  shows "\<bar>S / (S + eps) - 1\<bar> \<le> 1 / 10 ^ 5"
proof -
  have e: "0 < eps" "eps \<le> 1 / 10 ^ 5" by (simp_all add: eps_def)
  have pos: "0 < S + eps" using assms e by linarith
  have "S / (S + eps) - 1 = - (eps / (S + eps))"
    using pos by (simp add: field_simps)
  moreover have "eps / (S + eps) \<le> eps"
    using pos assms e by (simp add: pos_divide_le_eq mult_le_cancel_left1)
  moreover have "0 \<le> eps / (S + eps)" using pos e by simp
  ultimately show ?thesis using e by linarith
qed

lemma ravel_u8_in_range:
  "filter (\<lambda>x. 0 \<le> x \<and> x \<le> 256) (ravel_u8 m) = ravel_u8 m"
proof -
  have "unat p < 256" for p :: pixel
    using unsigned_less [of p, where ?'a = nat] by simp
  then have "real (unat p) \<le> 256" for p :: pixel
    by (metis less_imp_le of_nat_le_iff of_nat_numeral)
  moreover have "0 \<le> real (unat p)" for p :: pixel
    by (rule of_nat_0_le_iff)
  ultimately show ?thesis
    unfolding ravel_u8_def by (intro filter_True) auto
qed

lemma length_ravel_u8: "length (ravel_u8 m) = length (ravel m)"
  by (simp add: ravel_u8_def)

lemma length_ravel_shape: "has_shape h w m \<Longrightarrow> length (ravel m) = h * w"
proof -
  assume a: "has_shape h w m"
  then have "map length m = replicate h w"
    by (auto simp: has_shape_def list_all_iff map_replicate_const [symmetric] intro: map_cong)
  then show ?thesis
    by (simp add: ravel_def length_concat sum_list_replicate)
qed

lemma arctan2_bounds: "- pi < arctan2 y x \<and> arctan2 y x \<le> pi"
proof -
  have b: "- (pi / 2) < arctan (y / x)" "arctan (y / x) < pi / 2"
    by (rule arctan_lbound, rule arctan_ubound)
  have p: "0 < pi" by (rule pi_gt_zero)
  consider (pos) "0 < x" | (negp) "x < 0" "0 \<le> y" | (negn) "x < 0" "y < 0" | (zero) "x = 0"
    by linarith
  then show ?thesis
  proof cases
    case pos
    then show ?thesis using b p by (simp add: arctan2_def; linarith?)
  next
    case negp
    then have "y / x \<le> 0" by (simp add: divide_nonneg_neg)
    then have "arctan (y / x) \<le> 0" by (simp add: arctan_le_zero_iff)
    with negp b p show ?thesis by (simp add: arctan2_def; linarith?)
  next
    case negn
    then have "0 < y / x" by (simp add: divide_neg_neg)
    then have "0 < arctan (y / x)" by (simp add: zero_less_arctan_iff)
    with negn b p show ?thesis by (simp add: arctan2_def; linarith?)
  next
    case zero
    then show ?thesis using p by (auto simp: arctan2_def; linarith?)
  qed
qed

lemma angle_range: "0 \<le> angle g \<and> angle g \<le> 180"
proof -
  obtain gx gy where g: "g = (gx, gy)" by (cases g)
  let ?t = "arctan2 (real_of_int gy) (real_of_int gx)"
  let ?a = "?t * 180 / pi"
  have p: "0 < pi" by (rule pi_gt_zero)
  have t: "- pi < ?t" "?t \<le> pi" using arctan2_bounds by blast+
  have lo: "- 180 < ?a"
  proof -
    have "- 180 * pi < ?t * 180" using t(1) by simp
    then show ?thesis using p by (simp add: pos_less_divide_eq)
  qed
  have hi: "?a \<le> 180"
  proof -
    have "?t * 180 \<le> 180 * pi" using t(2) by simp
    then show ?thesis using p by (simp add: pos_divide_le_eq)
  qed
  show ?thesis using lo hi by (simp add: angle_def g Let_def)
qed

lemma magnitude_nonneg: "0 \<le> magnitude g"
  by (cases g) (simp add: magnitude_def)

lemma magnitude_zero: "magnitude (0, 0) = 0"
  by (simp add: magnitude_def)

lemma magnitude_ge_one:
  assumes "g \<noteq> (0, 0)"
  shows "1 \<le> magnitude g"
proof -
  obtain gx gy where g: "g = (gx, gy)" by (cases g)
  with assms have "gx \<noteq> 0 \<or> gy \<noteq> 0" by simp
  then have "1 \<le> gx\<^sup>2 + gy\<^sup>2"
  proof
    assume "gx \<noteq> 0"
    then have "1 \<le> gx\<^sup>2" by (metis abs_0_eq abs_power2 linorder_not_less power2_less_eq_zero_iff zless_imp_add1_zle add_0 zero_eq_power2 less_le)
    moreover have "0 \<le> gy\<^sup>2" by simp
    ultimately show ?thesis by linarith
  next
    assume "gy \<noteq> 0"
    then have "1 \<le> gy\<^sup>2" by (metis abs_0_eq abs_power2 linorder_not_less power2_less_eq_zero_iff zless_imp_add1_zle add_0 zero_eq_power2 less_le)
    moreover have "0 \<le> gx\<^sup>2" by simp
    ultimately show ?thesis by linarith
  qed
  then have "1 \<le> real_of_int (gx\<^sup>2 + gy\<^sup>2)" by linarith
  then have "1 \<le> (real_of_int gx)\<^sup>2 + (real_of_int gy)\<^sup>2" by simp
  then show ?thesis unfolding g magnitude_def by (simp add: real_sqrt_ge_one)
qed

lemma sum_magnitudes_zero:
  "\<forall>g\<in>set gs. g = (0, 0) \<Longrightarrow> sum_list (map magnitude gs) = 0"
  by (induction gs) (simp_all add: magnitude_zero)

lemma sum_magnitudes_nonneg: "0 \<le> sum_list (map magnitude gs)"
  by (induction gs) (simp_all add: magnitude_nonneg)

lemma sum_magnitudes_ge_one:
  "\<exists>g\<in>set gs. g \<noteq> (0, 0) \<Longrightarrow> 1 \<le> sum_list (map magnitude gs)"
proof (induction gs)
  case Nil
  then show ?case by simp
next
  case (Cons g gs)
  show ?case
  proof (cases "g = (0, 0)")
    case True
    with Cons show ?thesis by (simp add: magnitude_zero)
  next
    case False
    then have "1 \<le> magnitude g" by (rule magnitude_ge_one)
    with sum_magnitudes_nonneg [of gs] show ?thesis by simp
  qed
qed

lemma sum_hog_raw:
  "sum_list (np_histogram_weighted (map angle gs) 18 (0, 180) (map magnitude gs)) =
   sum_list (map magnitude gs)"
proof -
  have z: "zip (map angle gs) (map magnitude gs) = map (\<lambda>g. (angle g, magnitude g)) gs"
    by (induction gs) simp_all
  have "sum_list (np_histogram_weighted (map angle gs) 18 (0, 180) (map magnitude gs)) =
        sum_list (map (\<lambda>xw. if 0 \<le> fst xw \<and> fst xw \<le> 180 then snd xw else 0)
                      (map (\<lambda>g. (angle g, magnitude g)) gs))"
    unfolding np_histogram_weighted_def z by (rule sum_hist_weighted) simp_all
  also have "\<dots> = sum_list (map magnitude gs)"
    by (simp add: comp_def angle_range)
  finally show ?thesis .
qed

subsection \<open>Shapes through the preprocessing\<close>

lemma has_shape_map_map: "has_shape h w m \<Longrightarrow> has_shape h w (map (map f) m)"
  by (simp add: has_shape_def list_all_iff)

lemma has_shape_rows_cols:
  "has_shape h w m \<Longrightarrow> 0 < h \<Longrightarrow> rows m = h \<and> cols m = w"
  by (cases m) (auto simp: has_shape_def rows_def cols_def)

lemma has_shape_nonempty: "has_shape h w m \<Longrightarrow> 0 < h \<Longrightarrow> 0 < w \<Longrightarrow> nonempty m"
  by (simp add: nonempty_def has_shape_rows_cols)

lemma has_shape_lengths: "has_shape h w m \<Longrightarrow> map length m = replicate h w"
  by (auto simp: has_shape_def list_all_iff map_replicate_const [symmetric] intro: map_cong)

lemma merge_shape:
  assumes "has_shape h w l" "has_shape h w a" "has_shape h w b"
  shows "\<exists>r. merge l a b = Inr r \<and> has_shape h w r"
proof -
  have len: "map length l = replicate h w" "map length a = replicate h w"
    "map length b = replicate h w"
    using assms by (simp_all add: has_shape_lengths)
  have hl: "length l = h" "length a = h" "length b = h"
    using assms by (simp_all add: has_shape_def)
  let ?r = "map (\<lambda>(lr, ar, br). zip lr (zip ar br)) (zip l (zip a b))"
  have "merge l a b = Inr ?r" by (simp add: merge_def len)
  moreover have "has_shape h w ?r"
    using assms hl
    by (auto simp: has_shape_def list_all_iff set_zip)
  ultimately show ?thesis by blast
qed

lemma split_shape:
  assumes "has_shape h w c" "split c = (l, a, b)"
  shows "has_shape h w l \<and> has_shape h w a \<and> has_shape h w b"
  using assms by (auto simp: split_def has_shape_map_map)

lemma keeps_shapeD:
  "keeps_shape f \<Longrightarrow> has_shape h w m \<Longrightarrow> 0 < h \<Longrightarrow> 0 < w \<Longrightarrow> \<exists>r. f m = Inr r \<and> has_shape h w r"
  by (simp add: keeps_shape_def)

lemma equalize_shape:
  assumes "opencv_contract cv" "has_shape h w l" "0 < h" "0 < w"
  shows "\<exists>r. equalize cv l = Inr r \<and> has_shape h w r"
proof -
  from assms(1) have "keeps_shape (clahe_apply cv)" by (simp add: opencv_contract_def)
  from keeps_shapeD [OF this assms(2-4)] show ?thesis
    by (simp add: equalize_def ENABLE_CLAHE_def)
qed

lemma normalize_color_shape:
  assumes c: "opencv_contract cv" and s: "has_shape h w m" and h: "0 < h" and w: "0 < w"
  shows "\<exists>r. normalize cv (Color m) = Inr (Color r) \<and> has_shape h w r"
proof -
  from c have k1: "keeps_shape (\<lambda>c. cvtColor_BGR2LAB cv (Color c))"
    and k2: "keeps_shape (cvtColor_LAB2BGR cv)"
    by (simp_all add: opencv_contract_def)
  from keeps_shapeD [OF k1 s h w] obtain lab where
    lab: "cvtColor_BGR2LAB cv (Color m) = Inr lab" "has_shape h w lab" by blast
  obtain l a b where sp: "split lab = (l, a, b)" by (cases "split lab")
  from split_shape [OF lab(2) sp] have sh: "has_shape h w l" "has_shape h w a" "has_shape h w b"
    by blast+
  from equalize_shape [OF c sh(1) h w] obtain l' where
    l': "equalize cv l = Inr l'" "has_shape h w l'" by blast
  from merge_shape [OF l'(2) sh(2) sh(3)] obtain lab' where
    lab': "merge l' a b = Inr lab'" "has_shape h w lab'" by blast
  from keeps_shapeD [OF k2 lab'(2) h w] obtain n where
    n: "cvtColor_LAB2BGR cv lab' = Inr n" "has_shape h w n" by blast
  have "normalize cv (Color m) = Inr (Color n)"
    by (simp add: bind_def lab sp l' lab' n)
  with n(2) show ?thesis by blast
qed

lemma face_planes_shape:
  assumes c: "opencv_contract cv" and ne: "nonempty m"
  shows "\<exists>gray hsv. face_planes cv (Color m) = Inr (gray, hsv) \<and>
           has_shape 100 100 gray \<and> has_shape 100 100 hsv \<and>
           list_all (\<lambda>p. unat (fst p) < 180) (ravel hsv)"
proof -
  from c ne obtain r where r: "resize_color cv m (100, 100) = Inr r" "has_shape 100 100 r"
    unfolding opencv_contract_def by (metis zero_less_numeral)
  from normalize_color_shape [OF c r(2)] obtain n where
    n: "normalize cv (Color r) = Inr (Color n)" "has_shape 100 100 n" by auto
  from c have kg: "keeps_shape (\<lambda>c. cvtColor_BGR2GRAY cv (Color c))"
    and kh: "keeps_shape (\<lambda>c. cvtColor_BGR2HSV cv (Color c))"
    and hue: "\<And>c r. cvtColor_BGR2HSV cv (Color c) = Inr r \<Longrightarrow>
                 list_all (\<lambda>p. unat (fst p) < 180) (ravel r)"
    by (simp_all add: opencv_contract_def)
  from keeps_shapeD [OF kg n(2)] obtain g where
    g: "cvtColor_BGR2GRAY cv (Color n) = Inr g" "has_shape 100 100 g" by auto
  from keeps_shapeD [OF kh n(2)] obtain hs where
    hs: "cvtColor_BGR2HSV cv (Color n) = Inr hs" "has_shape 100 100 hs" by auto
  have "face_planes cv (Color m) = Inr (g, hs)"
    by (simp add: face_planes_def bind_def r n g hs del: normalize.simps)
  with g(2) hs(2) hue [OF hs(1)] show ?thesis by blast
qed

lemma face_region_nonempty:
  assumes "face_region img loc = Some (Color m)"
  shows "nonempty m"
proof -
  obtain t r b l where cl: "clamp_location img loc = (t, r, b, l)"
    by (cases "clamp_location img loc")
  from assms have "10 \<le> shape0 (Color m) \<and> 10 \<le> shape1 (Color m)"
    by (auto simp: face_region_def cl Let_def split: if_splits)
  then show ?thesis by (simp add: nonempty_def)
qed

lemma face_region_color:
  assumes "face_region (Color c) loc = Some region"
  shows "\<exists>m. region = Color m"
proof -
  obtain t r b l where cl: "clamp_location (Color c) loc = (t, r, b, l)"
    by (cases "clamp_location (Color c) loc")
  from assms show ?thesis
    by (auto simp: face_region_def cl Let_def split: if_splits)
qed

subsection \<open>The descriptor\<close>

lemma calculate_lbp_shape: "has_shape (rows g) (cols g) (calculate_lbp g)"
  by (simp add: calculate_lbp_def has_shape_def list_all_iff)

lemma normalised_sum:
  "sum_list (map (\<lambda>x. x / (sum_list h + eps)) h) = sum_list h / (sum_list h + eps)"
  by (rule sum_list_divide)

lemma sum_lbp_hist:
  "sum_list (lbp_hist g) = real (rows g * cols g) / (real (rows g * cols g) + eps)"
proof -
  have "sum_list (map real (np_histogram (ravel_u8 (calculate_lbp g)) 64 (0, 256))) =
        real (rows g * cols g)"
    by (simp add: sum_hist_counts ravel_u8_in_range length_ravel_u8
          length_ravel_shape [OF calculate_lbp_shape])
  then show ?thesis
    unfolding lbp_hist_def Let_def normalised_sum by (simp only:)
qed

lemma sum_gray_hist:
  "sum_list (gray_hist g) = real (length (ravel g)) / (real (length (ravel g)) + eps)"
proof -
  have "sum_list (map real (np_histogram (ravel_u8 g) 32 (0, 256))) = real (length (ravel g))"
    by (simp add: sum_hist_counts ravel_u8_in_range length_ravel_u8)
  then show ?thesis
    unfolding gray_hist_def Let_def normalised_sum by (simp only:)
qed

lemma hue_in_range:
  assumes "list_all (\<lambda>p. unat (fst p) < 180) (ravel hsv)"
  shows "filter (\<lambda>x. 0 \<le> x \<and> x \<le> 180) (ravel_u8 (map (map fst) hsv)) =
         ravel_u8 (map (map fst) hsv)"
proof -
  have r: "ravel (map (map fst) hsv) = map fst (ravel hsv)"
    by (simp add: ravel_def map_concat)
  have "real (unat (fst p)) \<le> 180" if "p \<in> set (ravel hsv)" for p
  proof -
    from assms that have "unat (fst p) < 180" by (simp add: list_all_iff)
    then show ?thesis by (metis less_imp_le of_nat_le_iff of_nat_numeral)
  qed
  moreover have "0 \<le> real (unat (fst p))" for p :: "pixel \<times> pixel \<times> pixel"
    by (rule of_nat_0_le_iff)
  ultimately show ?thesis
    unfolding ravel_u8_def r by (intro filter_True) auto
qed

lemma sum_color_hist:
  assumes "list_all (\<lambda>p. unat (fst p) < 180) (ravel hsv)"
  shows "sum_list (color_hist hsv) =
         real (length (ravel hsv)) / (real (length (ravel hsv)) + eps)"
proof -
  have l: "length (ravel_u8 (map (map fst) hsv)) = length (ravel hsv)"
    by (simp add: ravel_u8_def ravel_def map_concat length_concat comp_def)
  have "sum_list (map real (np_histogram (ravel_u8 (map (map fst) hsv)) 18 (0, 180))) =
        real (length (ravel hsv))"
    by (simp add: sum_hist_counts hue_in_range [OF assms] l)
  then show ?thesis
    unfolding color_hist_def Let_def normalised_sum by (simp only:)
qed

lemma sum_hog_hist:
  "sum_list (hog_hist g) =
   sum_list (map magnitude (gradients g)) / (sum_list (map magnitude (gradients g)) + eps)"
proof -
  let ?h = "np_histogram_weighted (map angle (gradients g)) 18 (0, 180)
              (map magnitude (gradients g))"
  have "sum_list (hog_hist g) = sum_list ?h / (sum_list ?h + eps)"
    unfolding hog_hist_def Let_def by (rule normalised_sum)
  then show ?thesis unfolding sum_hog_raw .
qed

lemma sum_hog_hist_cases:
  "(if \<exists>d\<in>set (gradients g). d \<noteq> (0, 0)
    then \<bar>sum_list (hog_hist g) - 1\<bar> \<le> 1 / 10 ^ 5
    else sum_list (hog_hist g) = 0)"
proof (cases "\<exists>d\<in>set (gradients g). d \<noteq> (0, 0)")
  case True
  then have "1 \<le> sum_list (map magnitude (gradients g))" by (rule sum_magnitudes_ge_one)
  then have "\<bar>sum_list (hog_hist g) - 1\<bar> \<le> 1 / 10 ^ 5"
    unfolding sum_hog_hist by (rule near_one)
  with True show ?thesis by (simp only: if_True)
next
  case False
  then have "sum_list (map magnitude (gradients g)) = 0"
    by (intro sum_magnitudes_zero) blast
  then show ?thesis using False by (simp add: sum_hog_hist)
qed

text \<open>
  C1, as the code has it. For every crop of a colour image that survives the size checks,
  and an OpenCV that keeps its documented promises, \<^verbatim>\<open>extract_face_features\<close> returns a
  descriptor of length exactly 132: the 64-bin LBP histogram, the 32-bin grey histogram,
  the 18-bin gradient-orientation histogram and the 18-bin hue histogram, in this order.
  The LBP, grey and hue histograms each sum to 1 within \<open>1e-5\<close>. The gradient-orientation
  histogram sums to 1 within \<open>1e-5\<close> when the normalised crop has a non-zero gradient
  somewhere; when it has none, the histogram sums to 0.
\<close>

theorem descriptor_layout:
  assumes "opencv_contract cv" and "face_region (Color c) loc = Some region"
  shows "\<exists>gray hsv.
     face_planes cv region = Inr (gray, hsv) \<and>
     extract_face_features cv (Color c) loc =
       Inr (Some (lbp_hist gray @ gray_hist gray @ hog_hist gray @ color_hist hsv)) \<and>
     length (lbp_hist gray) = 64 \<and> length (gray_hist gray) = 32 \<and>
     length (hog_hist gray) = 18 \<and> length (color_hist hsv) = 18 \<and>
     length (lbp_hist gray @ gray_hist gray @ hog_hist gray @ color_hist hsv) = 132 \<and>
     \<bar>sum_list (lbp_hist gray) - 1\<bar> \<le> 1 / 10 ^ 5 \<and>
     \<bar>sum_list (gray_hist gray) - 1\<bar> \<le> 1 / 10 ^ 5 \<and>
     \<bar>sum_list (color_hist hsv) - 1\<bar> \<le> 1 / 10 ^ 5 \<and>
     (if \<exists>d\<in>set (gradients gray). d \<noteq> (0, 0)
      then \<bar>sum_list (hog_hist gray) - 1\<bar> \<le> 1 / 10 ^ 5
      else sum_list (hog_hist gray) = 0)"
proof -
  from face_region_color [OF assms(2)] obtain m where m: "region = Color m" by blast
  with assms(2) have ne: "nonempty m" by (simp add: face_region_nonempty)
  from face_planes_shape [OF assms(1) ne] obtain gray hsv where
    fp: "face_planes cv (Color m) = Inr (gray, hsv)" and
    sg: "has_shape 100 100 gray" and sh: "has_shape 100 100 hsv" and
    hue: "list_all (\<lambda>p. unat (fst p) < 180) (ravel hsv)"
    by blast
  have rc: "rows gray = 100" "cols gray = 100"
    using has_shape_rows_cols [OF sg] by simp_all
  have lg: "length (ravel gray) = 100 * 100" by (rule length_ravel_shape [OF sg])
  have lh: "length (ravel hsv) = 100 * 100" by (rule length_ravel_shape [OF sh])
  have ex: "extract_face_features cv (Color c) loc =
       Inr (Some (lbp_hist gray @ gray_hist gray @ hog_hist gray @ color_hist hsv))"
    using assms(2) by (simp add: extract_face_features_def m fp bind_def descriptor_def)
  have s1: "\<bar>sum_list (lbp_hist gray) - 1\<bar> \<le> 1 / 10 ^ 5"
    unfolding sum_lbp_hist rc by (rule near_one) simp
  have s2: "\<bar>sum_list (gray_hist gray) - 1\<bar> \<le> 1 / 10 ^ 5"
    unfolding sum_gray_hist lg by (rule near_one) simp
  have s3: "\<bar>sum_list (color_hist hsv) - 1\<bar> \<le> 1 / 10 ^ 5"
    unfolding sum_color_hist [OF hue] lh by (rule near_one) simp
  show ?thesis
    using fp ex s1 s2 s3 sum_hog_hist_cases [of gray] unfolding m
    by (intro exI [of _ gray] exI [of _ hsv]) simp
qed

subsection \<open>The descriptor of a crop of one colour\<close>

lemma rows_replicate: "rows (replicate h r) = h"
  by (simp add: rows_def)

lemma cols_replicate: "0 < h \<Longrightarrow> cols (replicate h r) = length r"
  by (cases h) (simp_all add: cols_def)

lemma pointwise_keeps_shape: "keeps_shape (pointwise f)"
  unfolding keeps_shape_def
proof (intro allI impI)
  fix m :: "'a list list" and h w
  assume a: "has_shape h w m \<and> 0 < h \<and> 0 < w"
  then have "nonempty m" using has_shape_nonempty by blast
  then have "pointwise f m = Inr (map (map f) m)" by (simp add: pointwise_def)
  with a show "\<exists>r. pointwise f m = Inr r \<and> has_shape h w r"
    by (simp add: has_shape_map_map)
qed

lemma on_color_keeps_shape: "keeps_shape (\<lambda>c. on_color f (Color c))"
  using pointwise_keeps_shape [of f] by (simp add: on_color_def)

lemma resize_nearest_shape:
  assumes "nonempty m" "0 < w" "0 < h"
  shows "\<exists>r. resize_nearest m (w, h) = Inr r \<and> has_shape h w r"
  using assms by (simp add: resize_nearest_def has_shape_def list_all_iff)

lemma cv_simple_contract: "opencv_contract cv_simple"
  unfolding opencv_contract_def
proof (intro conjI allI impI)
  fix c :: color_image and r
  assume "cvtColor_BGR2HSV cv_simple (Color c) = Inr r"
  then have "r = map (map (\<lambda>p. (0, 0, luma p))) c"
    by (auto simp: cv_simple_def on_color_def pointwise_def split: if_splits)
  then show "list_all (\<lambda>p. unat (fst p) < 180) (ravel r)"
    by (simp add: ravel_def list_all_iff)
qed (simp_all add: cv_simple_def resize_nearest_shape pointwise_keeps_shape on_color_keeps_shape)

lemma resize_nearest_uniform:
  assumes "0 < h0" "0 < w0" "0 < w" "0 < h"
  shows "resize_nearest (replicate h0 (replicate w0 x)) (w, h) = Inr (replicate h (replicate w x))"
proof -
  let ?m = "replicate h0 (replicate w0 x)"
  have rc: "rows ?m = h0" "cols ?m = w0"
    using assms(1) by (simp_all add: rows_replicate cols_replicate)
  have ne: "nonempty ?m" using assms by (simp add: nonempty_def rc)
  have i: "i * h0 div h < h0" if "i < h" for i
    using that assms by (simp add: less_mult_imp_div_less mult.commute)
  have j: "j * w0 div w < w0" if "j < w" for j
    using that assms by (simp add: less_mult_imp_div_less mult.commute)
  have "map (\<lambda>i. map (\<lambda>j. ?m ! (i * h0 div h) ! (j * w0 div w)) [0..<w]) [0..<h] =
        map (\<lambda>i. map (\<lambda>j. x) [0..<w]) [0..<h]"
    by (intro map_cong refl) (simp add: i j)
  also have "\<dots> = replicate h (replicate w x)"
    by (simp add: map_replicate_const)
  finally show ?thesis
    using ne assms by (simp add: resize_nearest_def rc)
qed

lemma pointwise_uniform:
  "0 < h \<Longrightarrow> 0 < w \<Longrightarrow>
   pointwise f (replicate h (replicate w x)) = Inr (replicate h (replicate w (f x)))"
  by (simp add: pointwise_def nonempty_def rows_replicate cols_replicate)

lemma luma_black: "luma (0, 0, 0) = 0"
  by (simp add: luma_def)

lemma face_region_black20: "face_region black20 whole20 = Some black20"
  by (simp add: face_region_def clamp_location_def black20_def whole20_def rows_replicate
        cols_replicate slice2_def Let_def)

lemma split_uniform:
  "split (replicate h (replicate w (l, a, b))) =
     (replicate h (replicate w l), replicate h (replicate w a), replicate h (replicate w b))"
  by (simp add: split_def)

lemma merge_uniform:
  "merge (replicate h (replicate w l)) (replicate h (replicate w a)) (replicate h (replicate w b)) =
     Inr (replicate h (replicate w (l, a, b)))"
  by (simp add: merge_def zip_replicate map_replicate)

lemma face_planes_black20:
  "face_planes cv_simple black20 =
     Inr (replicate 100 (replicate 100 0), replicate 100 (replicate 100 (0, 0, 0)))"
  by (simp add: face_planes_def black20_def bind_def cv_simple_def resize_nearest_uniform
        on_color_def pointwise_uniform luma_black split_uniform merge_uniform equalize_def
        ENABLE_CLAHE_def)

lemma reflect_101_less:
  "2 \<le> n \<Longrightarrow> - 1 \<le> p \<Longrightarrow> p \<le> int n \<Longrightarrow> reflect_101 n p < n"
  by (auto simp: reflect_101_def)

lemma px_uniform:
  assumes "2 \<le> h" "2 \<le> w" "- 1 \<le> i" "i \<le> int h" "- 1 \<le> j" "j \<le> int w"
  shows "px (replicate h (replicate w v)) i j = int (unat v)"
proof -
  have "0 < h" using assms(1) by simp
  then have rc: "rows (replicate h (replicate w v)) = h" "cols (replicate h (replicate w v)) = w"
    by (simp_all add: rows_replicate cols_replicate)
  have "reflect_101 h i < h" "reflect_101 w j < w"
    using assms by (simp_all add: reflect_101_less)
  then show ?thesis by (simp add: px_def rc)
qed

lemma Sobel_uniform:
  assumes "2 \<le> h" "2 \<le> w"
  shows "Sobel_x (replicate h (replicate w v)) = replicate h (replicate w 0)"
    and "Sobel_y (replicate h (replicate w v)) = replicate h (replicate w 0)"
proof -
  let ?g = "replicate h (replicate w v)"
  have "0 < h" using assms(1) by simp
  then have rc: "rows ?g = h" "cols ?g = w"
    by (simp_all add: rows_replicate cols_replicate)
  have p: "px ?g i j = int (unat v)"
    if "- 1 \<le> i" "i \<le> int h" "- 1 \<le> j" "j \<le> int w" for i j
    using assms that by (rule px_uniform)
  have x: "map (\<lambda>i. map (\<lambda>j.
            (px ?g (i - 1) (j + 1) + 2 * px ?g i (j + 1) + px ?g (i + 1) (j + 1)) -
            (px ?g (i - 1) (j - 1) + 2 * px ?g i (j - 1) + px ?g (i + 1) (j - 1)))
          (map int [0..<w])) (map int [0..<h]) =
        map (\<lambda>i. map (\<lambda>j. 0) (map int [0..<w])) (map int [0..<h])"
    by (intro map_cong refl) (auto simp: p)
  have y: "map (\<lambda>i. map (\<lambda>j.
            (px ?g (i + 1) (j - 1) + 2 * px ?g (i + 1) j + px ?g (i + 1) (j + 1)) -
            (px ?g (i - 1) (j - 1) + 2 * px ?g (i - 1) j + px ?g (i - 1) (j + 1)))
          (map int [0..<w])) (map int [0..<h]) =
        map (\<lambda>i. map (\<lambda>j. 0) (map int [0..<w])) (map int [0..<h])"
    by (intro map_cong refl) (auto simp: p)
  show "Sobel_x ?g = replicate h (replicate w 0)"
    unfolding Sobel_x_def rc x by (simp add: map_replicate_const)
  show "Sobel_y ?g = replicate h (replicate w 0)"
    unfolding Sobel_y_def rc y by (simp add: map_replicate_const)
qed

lemma gradients_uniform:
  assumes "2 \<le> h" "2 \<le> w" "d \<in> set (gradients (replicate h (replicate w v)))"
  shows "d = (0, 0)"
proof -
  let ?z = "ravel (replicate h (replicate w (0::int)))"
  have z: "set ?z \<subseteq> {0}" by (auto simp: ravel_def)
  obtain a b where d: "d = (a, b)" by (cases d)
  from assms(3) have "(a, b) \<in> set (zip ?z ?z)"
    unfolding gradients_def Sobel_uniform [OF assms(1,2)] d .
  then have "a \<in> set ?z" "b \<in> set ?z"
    by (rule set_zip_leftD, rule set_zip_rightD)
  with z show ?thesis unfolding d by auto
qed

lemma hog_uniform:
  "2 \<le> h \<Longrightarrow> 2 \<le> w \<Longrightarrow> sum_list (hog_hist (replicate h (replicate w v))) = 0"
  using sum_hog_hist_cases [of "replicate h (replicate w v)"] gradients_uniform [of h w _ v]
  by (auto split: if_splits)

lemma extract_black20:
  "extract_face_features cv_simple black20 whole20 =
     Inr (Some (descriptor (replicate 100 (replicate 100 0))
                           (replicate 100 (replicate 100 (0, 0, 0)))))"
  by (simp add: extract_face_features_def face_region_black20 face_planes_black20 bind_def)

text \<open>
  The claim as stated, that all four histograms sum to 1 within \<open>1e-5\<close> for every crop
  that survives the size checks, fails for a crop of one colour. For the black image of
  20 by 20 pixels the crop survives, the descriptor is returned, and its third block, the
  gradient-orientation histogram at positions 96 to 113, sums to 0.
\<close>

theorem descriptor_counterexample:
  "face_region black20 whole20 = Some black20 \<and>
   extract_face_features cv_simple black20 whole20 =
     Inr (Some (descriptor (replicate 100 (replicate 100 0))
                           (replicate 100 (replicate 100 (0, 0, 0))))) \<and>
   take 18 (drop 96 (descriptor (replicate 100 (replicate 100 0))
                                (replicate 100 (replicate 100 (0, 0, 0))))) =
     hog_hist (replicate 100 (replicate 100 0)) \<and>
   sum_list (hog_hist (replicate 100 (replicate 100 0))) = 0 \<and>
   \<not> \<bar>sum_list (hog_hist (replicate 100 (replicate 100 0))) - 1\<bar> \<le> 1 / 10 ^ 5"
  by (simp add: face_region_black20 extract_black20 hog_uniform descriptor_def)

theorem descriptor_layout_witness:
  "opencv_contract cv_simple \<and>
   face_region (Color (replicate 20 (replicate 20 (0, 0, 0)))) whole20 = Some black20 \<and>
   (\<exists>gray hsv.
     face_planes cv_simple black20 = Inr (gray, hsv) \<and>
     extract_face_features cv_simple (Color (replicate 20 (replicate 20 (0, 0, 0)))) whole20 =
       Inr (Some (lbp_hist gray @ gray_hist gray @ hog_hist gray @ color_hist hsv)) \<and>
     length (lbp_hist gray @ gray_hist gray @ hog_hist gray @ color_hist hsv) = 132 \<and>
     \<bar>sum_list (lbp_hist gray) - 1\<bar> \<le> 1 / 10 ^ 5 \<and>
     \<bar>sum_list (gray_hist gray) - 1\<bar> \<le> 1 / 10 ^ 5 \<and>
     \<bar>sum_list (color_hist hsv) - 1\<bar> \<le> 1 / 10 ^ 5)"
proof -
  have r: "face_region (Color (replicate 20 (replicate 20 (0, 0, 0)))) whole20 = Some black20"
    using face_region_black20 by (simp add: black20_def)
  from descriptor_layout [OF cv_simple_contract r] cv_simple_contract r
  show ?thesis by blast
qed

subsection \<open>The liveness check\<close>

lemma check_liveness_scored:
  assumes "analyze_texture_lbp cv img = Inr t" "analyze_reflection cv img = Inr x"
    and "check_liveness cv img lm s = Inr (r, s')"
  shows "texture_score r = t \<and> reflection_score r = x \<and> blur_score r = None \<and>
         confidence r = t * (6 / 10) + x * (4 / 10) \<and>
         is_live r = (confidence r \<ge> LBP_THRESHOLD)"
  using assms(3)
  by (auto simp: check_liveness_def bind_def assms(1,2) Let_def
           split: option.splits if_splits sum.splits prod.splits)

lemma check_liveness_needs_scores:
  assumes "check_liveness cv img lm s = Inr (r, s')"
  shows "\<exists>t x. analyze_texture_lbp cv img = Inr t \<and> analyze_reflection cv img = Inr x"
  using assms by (auto simp: check_liveness_def bind_def split: sum.splits)

lemma check_liveness_cv_scored:
  assumes "size_of img \<noteq> 0" "analyze_texture_lbp cv img = Inr t"
    "analyze_reflection cv img = Inr x" "analyze_blur cv img = Inr b"
  shows "check_liveness_cv cv (Some img) lm =
     \<lparr>texture_score = t, reflection_score = x, blur_score = Some b, ear = None,
      blink_count = None, confidence = t * (4 / 10) + x * (3 / 10) + b * (3 / 10),
      is_live = (t * (4 / 10) + x * (3 / 10) + b * (3 / 10) \<ge> LBP_THRESHOLD)\<rparr>"
  using assms by (simp add: check_liveness_cv_def bind_def Let_def)

text \<open>
  C7. Whenever the scorers succeed, the fused confidence of face_processor.py, which has no
  blur score, is texture x 0.6 + reflection x 0.4, and that of face_processor_cv.py, which
  has one, is texture x 0.4 + reflection x 0.3 + blur x 0.3. The landmarks and the state of
  the blink detector do not change the confidence or the verdict. The verdict is that the
  confidence is at least the fixed threshold 0.4.
\<close>

theorem fused_confidence:
  "(check_liveness cv img lm s = Inr (r, s') \<longrightarrow>
      (\<exists>t x. analyze_texture_lbp cv img = Inr t \<and> analyze_reflection cv img = Inr x \<and>
             texture_score r = t \<and> reflection_score r = x \<and> blur_score r = None \<and>
             confidence r = t * (6 / 10) + x * (4 / 10)) \<and>
      is_live r = (confidence r \<ge> LBP_THRESHOLD)) \<and>
   (check_liveness cv img lm s = Inr (r, s') \<and> check_liveness cv img lm2 s2 = Inr (r2, s2') \<longrightarrow>
      confidence r2 = confidence r \<and> is_live r2 = is_live r) \<and>
   (size_of img \<noteq> 0 \<and> analyze_texture_lbp cv img = Inr t \<and>
    analyze_reflection cv img = Inr x \<and> analyze_blur cv img = Inr b \<longrightarrow>
      texture_score (check_liveness_cv cv (Some img) lm') = t \<and>
      reflection_score (check_liveness_cv cv (Some img) lm') = x \<and>
      blur_score (check_liveness_cv cv (Some img) lm') = Some b \<and>
      confidence (check_liveness_cv cv (Some img) lm') =
        t * (4 / 10) + x * (3 / 10) + b * (3 / 10) \<and>
      is_live (check_liveness_cv cv (Some img) lm') =
        (confidence (check_liveness_cv cv (Some img) lm') \<ge> LBP_THRESHOLD)) \<and>
   LBP_THRESHOLD = 4 / 10"
proof (intro conjI impI)
  assume a: "check_liveness cv img lm s = Inr (r, s')"
  from check_liveness_needs_scores [OF a] obtain t x where
    tx: "analyze_texture_lbp cv img = Inr t" "analyze_reflection cv img = Inr x" by blast
  from check_liveness_scored [OF tx a] tx
  show "\<exists>t x. analyze_texture_lbp cv img = Inr t \<and> analyze_reflection cv img = Inr x \<and>
             texture_score r = t \<and> reflection_score r = x \<and> blur_score r = None \<and>
             confidence r = t * (6 / 10) + x * (4 / 10)"
    by blast
  from check_liveness_scored [OF tx a]
  show "is_live r = (confidence r \<ge> LBP_THRESHOLD)" by blast
next
  assume a: "check_liveness cv img lm s = Inr (r, s') \<and>
             check_liveness cv img lm2 s2 = Inr (r2, s2')"
  from check_liveness_needs_scores [of cv img lm s r s'] a obtain t x where
    tx: "analyze_texture_lbp cv img = Inr t" "analyze_reflection cv img = Inr x" by blast
  from check_liveness_scored [OF tx, of lm s r s'] check_liveness_scored [OF tx, of lm2 s2 r2 s2'] a
  show "confidence r2 = confidence r" "is_live r2 = is_live r" by simp_all
next
  assume a: "size_of img \<noteq> 0 \<and> analyze_texture_lbp cv img = Inr t \<and>
    analyze_reflection cv img = Inr x \<and> analyze_blur cv img = Inr b"
  then have e: "check_liveness_cv cv (Some img) lm' =
     \<lparr>texture_score = t, reflection_score = x, blur_score = Some b, ear = None,
      blink_count = None, confidence = t * (4 / 10) + x * (3 / 10) + b * (3 / 10),
      is_live = (t * (4 / 10) + x * (3 / 10) + b * (3 / 10) \<ge> LBP_THRESHOLD)\<rparr>"
    by (intro check_liveness_cv_scored) simp_all
  show "texture_score (check_liveness_cv cv (Some img) lm') = t"
    "reflection_score (check_liveness_cv cv (Some img) lm') = x"
    "blur_score (check_liveness_cv cv (Some img) lm') = Some b"
    "confidence (check_liveness_cv cv (Some img) lm') =
        t * (4 / 10) + x * (3 / 10) + b * (3 / 10)"
    "is_live (check_liveness_cv cv (Some img) lm') =
        (confidence (check_liveness_cv cv (Some img) lm') \<ge> LBP_THRESHOLD)"
    by (simp_all add: e)
next
  show "LBP_THRESHOLD = 4 / 10" by (simp add: LBP_THRESHOLD_def)
qed

lemma to_gray_black20:
  "to_gray cv_simple black20 = Inr (replicate 20 (replicate 20 0))"
  by (simp add: to_gray_def black20_def cv_simple_def on_color_def pointwise_uniform luma_black)

lemma scores_black20:
  "\<exists>t. analyze_texture_lbp cv_simple black20 = Inr t"
  "\<exists>x. analyze_reflection cv_simple black20 = Inr x"
  "\<exists>b. analyze_blur cv_simple black20 = Inr b"
proof -
  have r: "resize_gray cv_simple (replicate 20 (replicate 20 0)) (128, 128) =
           Inr (replicate 128 (replicate 128 0))"
    by (simp add: cv_simple_def resize_nearest_uniform)
  show "\<exists>t. analyze_texture_lbp cv_simple black20 = Inr t"
    by (simp add: analyze_texture_lbp_def to_gray_black20 bind_def r Let_def)
  have th: "threshold_binary cv_simple (replicate 20 (replicate 20 0)) 240 255 =
            Inr (replicate 20 (replicate 20 0))"
    by (simp add: cv_simple_def pointwise_uniform)
  show "\<exists>x. analyze_reflection cv_simple black20 = Inr x"
    by (simp add: analyze_reflection_def to_gray_black20 bind_def th Let_def)
  have "nonempty (replicate 20 (replicate 20 (0::pixel)))"
    by (simp add: nonempty_def rows_replicate cols_replicate)
  then have "\<exists>l. Laplacian cv_simple (replicate 20 (replicate 20 0)) = Inr l"
    by (simp add: cv_simple_def laplacian4_def)
  then show "\<exists>b. analyze_blur cv_simple black20 = Inr b"
    by (auto simp: analyze_blur_def to_gray_black20 bind_def Let_def)
qed

lemma size_of_black20: "size_of black20 \<noteq> 0"
  by (simp add: black20_def rows_replicate cols_replicate)

lemma check_liveness_no_landmarks:
  assumes "analyze_texture_lbp cv img = Inr t" "analyze_reflection cv img = Inr x"
  shows "\<exists>r. check_liveness cv img None s = Inr (r, s)"
  by (simp add: check_liveness_def bind_def assms Let_def)

theorem fused_confidence_witness:
  "\<exists>t x b r.
     check_liveness cv_simple black20 None SpoofDetector_init = Inr (r, SpoofDetector_init) \<and>
     size_of black20 \<noteq> 0 \<and>
     analyze_texture_lbp cv_simple black20 = Inr t \<and>
     analyze_reflection cv_simple black20 = Inr x \<and>
     analyze_blur cv_simple black20 = Inr b \<and>
     confidence r = t * (6 / 10) + x * (4 / 10) \<and>
     is_live r = (confidence r \<ge> LBP_THRESHOLD) \<and>
     confidence (check_liveness_cv cv_simple (Some black20) None) =
       t * (4 / 10) + x * (3 / 10) + b * (3 / 10)"
proof -
  from scores_black20 obtain t x b where
    tx: "analyze_texture_lbp cv_simple black20 = Inr t"
        "analyze_reflection cv_simple black20 = Inr x"
        "analyze_blur cv_simple black20 = Inr b"
    by blast
  from check_liveness_no_landmarks [OF tx(1,2)] obtain r where
    r: "check_liveness cv_simple black20 None SpoofDetector_init = Inr (r, SpoofDetector_init)"
    by blast
  from fused_confidence [of cv_simple black20 None SpoofDetector_init r SpoofDetector_init
      None SpoofDetector_init r SpoofDetector_init t x b None]
    r tx size_of_black20
  show ?thesis by auto
qed

lemma raises_on_empty_cv_simple: "raises_on_empty cv_simple"
  by (simp add: raises_on_empty_def cv_simple_def resize_nearest_def on_color_def pointwise_def
        split: prod.splits)

lemma texture_raises_on_empty:
  assumes "raises_on_empty cv" "size_of img = 0"
  shows "analyze_texture_lbp cv img = Inl CvError"
proof (cases img)
  case (Gray g)
  with assms have "resize_gray cv g (128, 128) = Inl CvError"
    by (auto simp: raises_on_empty_def nonempty_def)
  with Gray show ?thesis by (simp add: analyze_texture_lbp_def to_gray_def bind_def)
next
  case (Color c)
  with assms have "cvtColor_BGR2GRAY cv (Color c) = Inl CvError"
    by (auto simp: raises_on_empty_def nonempty_def)
  with Color show ?thesis by (simp add: analyze_texture_lbp_def to_gray_def bind_def)
qed

lemma check_liveness_cv_fail_open:
  "size_of img = 0 \<or> analyze_texture_lbp cv img = Inl e \<or> analyze_reflection cv img = Inl e \<or>
   analyze_blur cv img = Inl e \<Longrightarrow>
   check_liveness_cv cv (Some img) lm = fail_open"
  by (auto simp: check_liveness_cv_def bind_def split: sum.splits)

text \<open>
  C3. The liveness check of face_processor_cv.py fails open: on an absent or empty crop,
  and whenever a scorer raises, it returns the all-ones result, which is live with
  confidence 1. The liveness check of face_processor.py does not: it has neither the guard
  nor the handler, so on an empty crop, which OpenCV refuses, and whenever a scorer
  raises, the exception reaches the caller.
\<close>

theorem fail_open_only_in_cv:
  "(raises_on_empty cv \<and> size_of img = 0 \<longrightarrow> check_liveness cv img lm s = Inl CvError) \<and>
   (analyze_texture_lbp cv img = Inl e \<longrightarrow> check_liveness cv img lm s = Inl e) \<and>
   (analyze_texture_lbp cv img = Inr t \<and> analyze_reflection cv img = Inl e \<longrightarrow>
      check_liveness cv img lm s = Inl e) \<and>
   check_liveness_cv cv None lm' = fail_open \<and>
   (size_of img = 0 \<or> analyze_texture_lbp cv img = Inl e \<or>
    analyze_reflection cv img = Inl e \<or> analyze_blur cv img = Inl e \<longrightarrow>
      check_liveness_cv cv (Some img) lm' = fail_open) \<and>
   is_live fail_open \<and> confidence fail_open = 1"
proof (intro conjI impI)
  assume "raises_on_empty cv \<and> size_of img = 0"
  then have "analyze_texture_lbp cv img = Inl CvError"
    by (simp add: texture_raises_on_empty)
  then show "check_liveness cv img lm s = Inl CvError"
    by (simp add: check_liveness_def bind_def)
next
  assume "size_of img = 0 \<or> analyze_texture_lbp cv img = Inl e \<or>
    analyze_reflection cv img = Inl e \<or> analyze_blur cv img = Inl e"
  then show "check_liveness_cv cv (Some img) lm' = fail_open"
    by (rule check_liveness_cv_fail_open)
qed (simp_all add: check_liveness_def check_liveness_cv_def bind_def fail_open_def)

theorem fail_open_only_in_cv_witness:
  "raises_on_empty cv_simple \<and> size_of (Color []) = 0 \<and>
   check_liveness cv_simple (Color []) None SpoofDetector_init = Inl CvError \<and>
   check_liveness_cv cv_simple (Some (Color [])) None = fail_open"
  using fail_open_only_in_cv [of cv_simple "Color []" None SpoofDetector_init CvError 0 None]
    raises_on_empty_cv_simple
  by (simp add: rows_def)

subsection \<open>Identification against the gallery\<close>


lemma first_index_Cons:
  "first_index P (x # xs) = (if P x then 0 else 1 + first_index P xs)"
  by (simp add: first_index_def)


lemma nth_first_index:
  "x \<in> set xs \<Longrightarrow> P x \<Longrightarrow> P (xs ! first_index P xs)"
  by (induction xs) (auto simp: first_index_Cons)


















subsection \<open>The confidence of a match\<close>















subsection \<open>The enrollment guard\<close>

lemma http_500_cases:
  "http_500 m st f = (out, st') \<Longrightarrow>
   (\<exists>e. m = Inl e \<and> out = Inl (InternalServerError e) \<and> st' = st) \<or>
   (\<exists>x. m = Inr x \<and> f x = (out, st'))"
  by (auto simp: http_500_def split: sum.splits)









end
